theory Spec2Isabelle
  imports Main
begin

section \<open>Data model\<close>

text \<open>
  The persistent store holds three tables. Identifiers are the strings the handlers
  receive as path and body parameters; a timestamp (a JavaScript \<open>Date\<close>) is its number
  of milliseconds since the epoch; a nullable column is an \<open>option\<close>.
  The columns \<open>createdAt\<close> and \<open>updatedAt\<close> are maintained by the store and no handler
  writes or compares them, so the rows do not carry them.
\<close>

type_synonym ident = string
type_synonym timestamp = int

datatype slot_status = AVAILABLE | LOCKED | BOOKED

datatype appointment_status = APPT_BOOKED | COMPLETED | CANCELLED | RESCHEDULED

record time_slot =
  slot_id :: ident
  slot_doctorId :: ident
  date :: timestamp
  startTime :: string
  endTime :: string
  slot_status :: slot_status
  lockedBy :: "ident option"
  lockedAt :: "timestamp option"
  lockExpires :: "timestamp option"

record appointment =
  appt_id :: ident
  appt_userId :: ident
  appt_doctorId :: ident
  timeSlotId :: "ident option"
  appt_status :: appointment_status
  appt_notes :: "string option"

record user =
  user_id :: ident
  otpVerifiedUntil :: "timestamp option"

record db =
  slots :: "time_slot list"
  appointments :: "appointment list"
  users :: "user list"

text \<open>
  What a handler answers: the HTTP status and either the error or the data of the body.
  The errors that the source throws with a \<open>code\<close> keep that code as their name; the
  others are named after their message. \<open>PRISMA_P2025\<close> is the exception of the store
  client when \<open>update\<close> finds no row.
\<close>

datatype error =
    PARAMS_REQUIRED | TIME_SLOT_NOT_FOUND | TIME_SLOT_ALREADY_BOOKED | TIME_SLOT_ALREADY_LOCKED
  | TIME_SLOT_TEMPORARILY_LOCKED | LOCK_LIMIT_REACHED | UNABLE_TO_LOCK
  | SLOT_NOT_FOUND | SLOT_ALREADY_BOOKED | OTP_REQUIRED | LOCK_INVALID
  | SLOT_IN_PAST | SLOT_ALREADY_STARTED | CONFLICT_SLOT_STATE
  | VALIDATION_ERROR | APPOINTMENT_NOT_FOUND | INVALID_STATUS
  | ONLY_BOOKED_CAN_BE_CANCELLED | ONLY_BOOKED_CAN_BE_RESCHEDULED | NO_ACTIVE_SLOT
  | NEW_SLOT_MUST_DIFFER | RESCHEDULE_WITHIN_24H | NEW_TIME_SLOT_NOT_FOUND
  | RESCHEDULE_TO_PAST_SLOT | NEW_SLOT_LOCKED_OR_BOOKED
  | DOCTOR_MISMATCH | OLD_SLOT_MISMATCH
  | NEW_SLOT_NOT_FOUND | NEW_SLOT_NOT_LOCKED_BY_USER | SLOT_ALREADY_STARTED_OR_PAST
  | CONFLICT_NEW_SLOT
  | PRISMA_P2025 | REDIS_ERROR | INTERNAL_SERVER_ERROR

type_synonym 'a response = "nat \<times> (error + 'a)"

record lease =
  lease_slotId :: ident
  lease_doctorId :: ident
  lease_lockedBy :: ident
  lease_lockedAt :: timestamp
  expiresAt :: timestamp

section \<open>The store client\<close>

text \<open>
  A table is the list of its rows. \<open>findFirst\<close> and \<open>findUnique\<close> return the first
  row that satisfies the \<open>where\<close> clause, \<open>updateMany\<close> rewrites every such row and
  reports how many there were, \<open>update\<close> throws when there is none, and \<open>create\<close>
  appends the row. A comparison with a null column selects nothing, as in SQL.
\<close>

definition findFirst :: "('r \<Rightarrow> bool) \<Rightarrow> 'r list \<Rightarrow> 'r option" where
  "findFirst P rows = find P rows"

definition count_rows :: "('r \<Rightarrow> bool) \<Rightarrow> 'r list \<Rightarrow> nat" where
  "count_rows P rows = length (filter P rows)"

definition updateMany :: "('r \<Rightarrow> bool) \<Rightarrow> ('r \<Rightarrow> 'r) \<Rightarrow> 'r list \<Rightarrow> 'r list \<times> nat" where
  "updateMany P f rows = (map (\<lambda>r. if P r then f r else r) rows, count_rows P rows)"

definition update_row ::
  "('r \<Rightarrow> bool) \<Rightarrow> ('r \<Rightarrow> 'r) \<Rightarrow> 'r list \<Rightarrow> error + ('r list \<times> 'r)" where
  "update_row P f rows =
     (case find P rows of
        None \<Rightarrow> Inl PRISMA_P2025
      | Some r \<Rightarrow> Inr (map (\<lambda>r. if P r then f r else r) rows, f r))"

fun date_gt :: "timestamp option \<Rightarrow> timestamp \<Rightarrow> bool" where
  "date_gt None n = False"
| "date_gt (Some t) n = (n < t)"

fun date_lt :: "timestamp option \<Rightarrow> timestamp \<Rightarrow> bool" where
  "date_lt None n = False"
| "date_lt (Some t) n = (t < n)"

text \<open>
  A transaction runs its body on the store; when the body throws, nothing it wrote is
  kept and the exception goes on to the handler.
\<close>

definition transaction :: "(db \<Rightarrow> error + (db \<times> 'a)) \<Rightarrow> db \<Rightarrow> (error + 'a) \<times> db" where
  "transaction body d =
     (case body d of
        Inl e \<Rightarrow> (Inl e, d)
      | Inr (d', a) \<Rightarrow> (Inr a, d'))"

text \<open>
  The cache is an outside service: all that matters of it here is whether its calls
  return or throw. \<open>invalidate ok\<close> is a sequence of cache calls, \<open>ok\<close> telling whether
  they return.
\<close>

definition invalidate :: "bool \<Rightarrow> error + unit" where
  "invalidate redis_ok = (if redis_ok then Inr () else Inl REDIS_ERROR)"

text \<open>\<open>try { ... } catch (e) { console.error(e) }\<close>: the handler goes on either way.\<close>

definition catch_and_log :: "error + unit \<Rightarrow> unit" where
  "catch_and_log r = (case r of Inl e \<Rightarrow> () | Inr u \<Rightarrow> u)"

section \<open>Time helpers\<close>

definition msPerDay :: int where "msPerDay = 86400000"

definition utcMidnight :: "timestamp \<Rightarrow> timestamp" where
  "utcMidnight t = (t div msPerDay) * msPerDay"

definition getUTCHours :: "timestamp \<Rightarrow> nat" where
  "getUTCHours t = nat ((t mod msPerDay) div 3600000)"

definition getUTCMinutes :: "timestamp \<Rightarrow> nat" where
  "getUTCMinutes t = nat ((t mod 3600000) div 60000)"

definition digit_char :: "nat \<Rightarrow> char" where
  "digit_char d = char_of (48 + d)"

text \<open>\<open>String(n).padStart(2, '0')\<close> for a number below 100.\<close>

definition pad2 :: "nat \<Rightarrow> string" where
  "pad2 n = [digit_char (n div 10), digit_char (n mod 10)]"

definition currentHM :: "timestamp \<Rightarrow> string" where
  "currentHM t = pad2 (getUTCHours t) @ '':'' @ pad2 (getUTCMinutes t)"

text \<open>JavaScript compares strings code unit by code unit.\<close>

fun str_le :: "string \<Rightarrow> string \<Rightarrow> bool" where
  "str_le [] ys = True"
| "str_le (x # xs) [] = False"
| "str_le (x # xs) (y # ys) =
     ((of_char x :: nat) < of_char y \<or> (x = y \<and> str_le xs ys))"

fun split_on :: "char \<Rightarrow> string \<Rightarrow> string list" where
  "split_on c [] = [[]]"
| "split_on c (x # xs) =
     (if x = c then [] # split_on c xs
      else (case split_on c xs of
              [] \<Rightarrow> [[x]]
            | p # ps \<Rightarrow> (x # p) # ps))"

text \<open>
  \<open>Number\<close> on a string of decimal digits (the empty string is 0). Every other string
  is taken as \<open>NaN\<close>, written \<open>None\<close>: a \<open>startTime\<close> in the store has passed the
  pattern \<open>HH:MM\<close> when the slot was created.
\<close>

definition is_digit :: "char \<Rightarrow> bool" where
  "is_digit c = (48 \<le> (of_char c :: nat) \<and> (of_char c :: nat) \<le> 57)"

definition Number :: "string \<Rightarrow> nat option" where
  "Number s =
     (if list_all is_digit s
      then Some (foldl (\<lambda>acc c. 10 * acc + (of_char c - 48)) 0 s)
      else None)"

text \<open>\<open>x || 0\<close> for an element of the split that may be missing or \<open>NaN\<close>.\<close>

definition part_or_zero :: "string list \<Rightarrow> nat \<Rightarrow> nat" where
  "part_or_zero parts i =
     (if i < length parts
      then (case Number (parts ! i) of None \<Rightarrow> 0 | Some n \<Rightarrow> n)
      else 0)"

definition getUtcDateTime :: "timestamp \<Rightarrow> string \<Rightarrow> timestamp" where
  "getUtcDateTime d time =
     (let parts = split_on CHR '':'' (if time = [] then ''00:00'' else time);
          hh = part_or_zero parts 0;
          mm = part_or_zero parts 1
      in utcMidnight d + int hh * 3600000 + int mm * 60000)"

section \<open>Locking a slot\<close>

text \<open>
  A handler reads the store before it writes, and other requests may commit in between.
  So a handler takes the store twice: \<open>pre\<close> is the store its reads saw, \<open>d\<close> the store
  its conditional write or its transaction meets. A handler that runs alone has
  \<open>pre = d\<close>. It returns its response and the store it leaves.
\<close>

definition lock_data :: "ident \<Rightarrow> timestamp \<Rightarrow> time_slot \<Rightarrow> time_slot" where
  "lock_data userId nowUtc s =
     s\<lparr>slot_status := LOCKED, lockedBy := Some userId, lockedAt := Some nowUtc,
       lockExpires := Some (nowUtc + 5 * 60 * 1000)\<rparr>"

definition lockTimeSlot ::
  "db \<Rightarrow> db \<Rightarrow> ident \<Rightarrow> ident \<Rightarrow> ident \<Rightarrow> timestamp \<Rightarrow> bool \<Rightarrow> lease response \<times> db" where
  "lockTimeSlot pre d doctorId slotId userId nowUtc redis_ok =
     (if doctorId = [] \<or> slotId = [] then ((400, Inl PARAMS_REQUIRED), d)
      else case findFirst (\<lambda>s. slot_id s = slotId \<and> slot_doctorId s = doctorId) (slots pre) of
        None \<Rightarrow> ((404, Inl TIME_SLOT_NOT_FOUND), d)
      | Some slot \<Rightarrow>
          if slot_status slot = BOOKED then ((409, Inl TIME_SLOT_ALREADY_BOOKED), d)
          else if slot_status slot = LOCKED then ((409, Inl TIME_SLOT_ALREADY_LOCKED), d)
          else
            let isLockedByOther =
                  (slot_status slot = LOCKED \<and> lockedBy slot \<noteq> None \<and> lockedBy slot \<noteq> Some []
                   \<and> lockedBy slot \<noteq> Some userId \<and> date_gt (lockExpires slot) nowUtc)
            in if isLockedByOther then ((409, Inl TIME_SLOT_TEMPORARILY_LOCKED), d)
            else
              let activeLocks =
                    count_rows (\<lambda>s. lockedBy s = Some userId \<and> slot_status s = LOCKED
                                     \<and> date_gt (lockExpires s) nowUtc) (slots pre)
              in if activeLocks \<ge> 3 then ((429, Inl LOCK_LIMIT_REACHED), d)
              else
                let expires = nowUtc + 5 * 60 * 1000;
                    updateResult =
                      updateMany
                        (\<lambda>s. slot_id s = slotId \<and> slot_doctorId s = doctorId
                             \<and> (slot_status s = AVAILABLE \<or> lockedBy s = Some userId
                                \<or> date_lt (lockExpires s) nowUtc))
                        (lock_data userId nowUtc) (slots d);
                    d' = d\<lparr>slots := fst updateResult\<rparr>
                in if snd updateResult \<noteq> 1 then ((409, Inl UNABLE_TO_LOCK), d')
                   else
                     let u = catch_and_log (invalidate redis_ok)
                     in ((200, Inr \<lparr>lease_slotId = slotId, lease_doctorId = doctorId,
                                   lease_lockedBy = userId, lease_lockedAt = nowUtc,
                                   expiresAt = expires\<rparr>), d'))"

section \<open>Confirming a booking\<close>

definition validateAppointment :: "ident \<Rightarrow> ident \<Rightarrow> string option \<Rightarrow> bool" where
  "validateAppointment doctorId tsId notes =
     (doctorId \<noteq> [] \<and> tsId \<noteq> []
      \<and> (case notes of None \<Rightarrow> True | Some n \<Rightarrow> n \<noteq> [] \<and> length n \<le> 500))"

definition otp_required :: "user option \<Rightarrow> timestamp \<Rightarrow> bool" where
  "otp_required usr nowUtc =
     (case usr of
        None \<Rightarrow> True
      | Some u \<Rightarrow> (case otpVerifiedUntil u of None \<Rightarrow> True | Some t \<Rightarrow> t \<le> nowUtc))"

definition book_data :: "time_slot \<Rightarrow> time_slot" where
  "book_data s = s\<lparr>slot_status := BOOKED, lockedBy := None, lockedAt := None, lockExpires := None\<rparr>"

definition held_by :: "ident \<Rightarrow> timestamp \<Rightarrow> time_slot \<Rightarrow> bool" where
  "held_by userId nowUtc s =
     (slot_status s = LOCKED \<and> lockedBy s = Some userId \<and> date_gt (lockExpires s) nowUtc)"

definition confirmBooking_tx ::
  "time_slot \<Rightarrow> ident \<Rightarrow> ident \<Rightarrow> ident \<Rightarrow> string option \<Rightarrow> timestamp \<Rightarrow> ident \<Rightarrow> db
     \<Rightarrow> error + (db \<times> appointment)" where
  "confirmBooking_tx slot userId doctorId tsId notes nowUtc newId tx =
     (let todayUtc = utcMidnight nowUtc in
      if date slot < todayUtc then Inl SLOT_IN_PAST
      else if date slot = todayUtc \<and> str_le (startTime slot) (currentHM nowUtc)
      then Inl SLOT_ALREADY_STARTED
      else
        let updateResult =
              updateMany (\<lambda>s. slot_id s = tsId \<and> slot_doctorId s = doctorId \<and> held_by userId nowUtc s)
                book_data (slots tx);
            tx1 = tx\<lparr>slots := fst updateResult\<rparr>
        in if snd updateResult \<noteq> 1 then Inl CONFLICT_SLOT_STATE
           else if findFirst (\<lambda>a. timeSlotId a = Some tsId \<and> appt_status a = APPT_BOOKED)
                     (appointments tx1) \<noteq> None
           then Inl SLOT_ALREADY_BOOKED
           else
             let newAppointment =
                   \<lparr>appt_id = newId, appt_userId = userId, appt_doctorId = doctorId,
                    timeSlotId = Some tsId, appt_status = APPT_BOOKED,
                    appt_notes = (if notes = Some [] then None else notes)\<rparr>;
                 tx2 = tx1\<lparr>appointments := appointments tx1 @ [newAppointment]\<rparr>
             in (case update_row (\<lambda>u. user_id u = userId) (\<lambda>u. u\<lparr>otpVerifiedUntil := None\<rparr>)
                        (users tx2) of
                   Inl e \<Rightarrow> Inl e
                 | Inr us \<Rightarrow> Inr (tx2\<lparr>users := fst us\<rparr>, newAppointment)))"

text \<open>
  The handler's \<open>catch\<close>: an exception that carries a \<open>code\<close> is answered with the status
  of \<open>statusMap\<close>, or 400 when the map has no entry for the code.
\<close>

definition statusMap :: "error \<Rightarrow> nat option" where
  "statusMap e =
     (if e = SLOT_NOT_FOUND then Some 404
      else if e = SLOT_ALREADY_BOOKED then Some 409
      else if e = OTP_REQUIRED then Some 403
      else if e = LOCK_INVALID then Some 409
      else if e = SLOT_IN_PAST then Some 409
      else if e = SLOT_ALREADY_STARTED then Some 409
      else if e = CONFLICT_SLOT_STATE then Some 409
      else None)"

definition confirmBooking ::
  "db \<Rightarrow> db \<Rightarrow> ident \<Rightarrow> ident \<Rightarrow> ident \<Rightarrow> string option \<Rightarrow> timestamp \<Rightarrow> ident \<Rightarrow> bool
     \<Rightarrow> appointment response \<times> db" where
  "confirmBooking pre d userId doctorId tsId notes nowUtc newId redis_ok =
     (if \<not> validateAppointment doctorId tsId notes then ((400, Inl VALIDATION_ERROR), d)
      else case findFirst (\<lambda>s. slot_id s = tsId) (slots pre) of
        None \<Rightarrow> ((404, Inl SLOT_NOT_FOUND), d)
      | Some slot \<Rightarrow>
          if slot_doctorId slot \<noteq> doctorId then ((404, Inl SLOT_NOT_FOUND), d)
          else if slot_status slot = BOOKED then ((409, Inl SLOT_ALREADY_BOOKED), d)
          else if otp_required (findFirst (\<lambda>u. user_id u = userId) (users pre)) nowUtc
          then ((403, Inl OTP_REQUIRED), d)
          else if \<not> held_by userId nowUtc slot then ((409, Inl LOCK_INVALID), d)
          else
            (case transaction
                    (confirmBooking_tx slot userId doctorId tsId notes nowUtc newId) d of
               (Inl e, d') \<Rightarrow>
                 (((case statusMap e of Some st \<Rightarrow> st | None \<Rightarrow> 400), Inl e), d')
             | (Inr appointment, d') \<Rightarrow>
                 (let u = catch_and_log (invalidate redis_ok)
                  in ((201, Inr appointment), d'))))"

section \<open>Updating the status of an appointment\<close>

record status_reply =
  reply_changed :: bool
  reply_id :: ident
  reply_status :: appointment_status

definition updateAppointmentStatus ::
  "db \<Rightarrow> db \<Rightarrow> ident \<Rightarrow> ident \<Rightarrow> appointment_status \<Rightarrow> bool \<Rightarrow> status_reply response \<times> db" where
  "updateAppointmentStatus pre d userId ident status redis_ok =
     (if status \<notin> set [APPT_BOOKED, COMPLETED, CANCELLED] then ((400, Inl VALIDATION_ERROR), d)
      else case findFirst (\<lambda>a. appt_id a = ident) (appointments pre) of
        None \<Rightarrow> ((404, Inl APPOINTMENT_NOT_FOUND), d)
      | Some appt \<Rightarrow>
          if appt_userId appt \<noteq> userId then ((404, Inl APPOINTMENT_NOT_FOUND), d)
          else if status \<notin> set [APPT_BOOKED, COMPLETED, CANCELLED]
          then ((400, Inl INVALID_STATUS), d)
          else if appt_status appt = status
          then ((200, Inr \<lparr>reply_changed = False, reply_id = appt_id appt,
                           reply_status = appt_status appt\<rparr>), d)
          else
            (case update_row (\<lambda>a. appt_id a = appt_id appt) (\<lambda>a. a\<lparr>appt_status := status\<rparr>)
                    (appointments d) of
               Inl e \<Rightarrow> ((500, Inl INTERNAL_SERVER_ERROR), d)
             | Inr updated \<Rightarrow>
                 (case invalidate redis_ok of
                    Inl e \<Rightarrow> ((500, Inl INTERNAL_SERVER_ERROR), d\<lparr>appointments := fst updated\<rparr>)
                  | Inr u \<Rightarrow>
                      ((200, Inr \<lparr>reply_changed = True, reply_id = appt_id (snd updated),
                                  reply_status = appt_status (snd updated)\<rparr>),
                       d\<lparr>appointments := fst updated\<rparr>))))"

section \<open>Rescheduling, first phase: locking the new slot\<close>

text \<open>The relation \<open>appt.timeSlot\<close>: the slot row the appointment points at, if any.\<close>

definition timeSlot_of :: "db \<Rightarrow> appointment \<Rightarrow> time_slot option" where
  "timeSlot_of pre a =
     (case timeSlotId a of
        None \<Rightarrow> None
      | Some sid \<Rightarrow> findFirst (\<lambda>s. slot_id s = sid) (slots pre))"

definition dayMs :: int where "dayMs = 24 * 60 * 60 * 1000"

definition rescheduleAppointment ::
  "db \<Rightarrow> db \<Rightarrow> ident \<Rightarrow> ident \<Rightarrow> ident \<Rightarrow> timestamp \<Rightarrow> (lease \<times> ident option) response \<times> db" where
  "rescheduleAppointment pre d userId ident newTimeSlotId nowUtc =
     (if newTimeSlotId = [] then ((400, Inl VALIDATION_ERROR), d)
      else case findFirst (\<lambda>a. appt_id a = ident \<and> appt_userId a = userId) (appointments pre) of
        None \<Rightarrow> ((404, Inl APPOINTMENT_NOT_FOUND), d)
      | Some appt \<Rightarrow>
          if appt_status appt \<noteq> APPT_BOOKED then ((409, Inl ONLY_BOOKED_CAN_BE_RESCHEDULED), d)
          else
            (case timeSlot_of pre appt of
               None \<Rightarrow> ((409, Inl NO_ACTIVE_SLOT), d)
             | Some ts \<Rightarrow>
                 if timeSlotId appt = Some [] then ((409, Inl NO_ACTIVE_SLOT), d)
                 else if timeSlotId appt = Some newTimeSlotId
                 then ((400, Inl NEW_SLOT_MUST_DIFFER), d)
                 else if getUtcDateTime (date ts) (startTime ts) - nowUtc \<le> dayMs
                 then ((400, Inl RESCHEDULE_WITHIN_24H), d)
                 else
                   (case findFirst (\<lambda>s. slot_id s = newTimeSlotId
                                         \<and> slot_doctorId s = appt_doctorId appt) (slots pre) of
                      None \<Rightarrow> ((404, Inl NEW_TIME_SLOT_NOT_FOUND), d)
                    | Some newSlot \<Rightarrow>
                        if getUtcDateTime (date newSlot) (startTime newSlot) \<le> nowUtc
                        then ((400, Inl RESCHEDULE_TO_PAST_SLOT), d)
                        else
                          let lockResult =
                                updateMany
                                  (\<lambda>s. slot_id s = newTimeSlotId
                                       \<and> slot_doctorId s = appt_doctorId appt
                                       \<and> (slot_status s = AVAILABLE
                                          \<or> (slot_status s = LOCKED \<and> date_lt (lockExpires s) nowUtc)
                                          \<or> lockedBy s = Some userId))
                                  (lock_data userId nowUtc) (slots d);
                              d' = d\<lparr>slots := fst lockResult\<rparr>
                          in if snd lockResult \<noteq> 1 then ((409, Inl NEW_SLOT_LOCKED_OR_BOOKED), d')
                             else ((200, Inr (\<lparr>lease_slotId = newTimeSlotId,
                                               lease_doctorId = appt_doctorId appt,
                                               lease_lockedBy = userId, lease_lockedAt = nowUtc,
                                               expiresAt = nowUtc + 5 * 60 * 1000\<rparr>,
                                              timeSlotId appt)), d'))))"

section \<open>Cancelling an appointment\<close>

definition release_data :: "time_slot \<Rightarrow> time_slot" where
  "release_data s = s\<lparr>slot_status := AVAILABLE, lockedAt := None, lockedBy := None\<rparr>"

definition cancelAppointment_tx ::
  "appointment \<Rightarrow> time_slot option \<Rightarrow> bool \<Rightarrow> db \<Rightarrow> error + (db \<times> appointment)" where
  "cancelAppointment_tx appt ts isMoreThan24h tx =
     (case (if ts \<noteq> None \<and> isMoreThan24h \<and> map_option slot_status ts = Some BOOKED
            then map_sum id fst
                   (update_row (\<lambda>s. Some (slot_id s) = timeSlotId appt) release_data (slots tx))
            else Inr (slots tx)) of
        Inl e \<Rightarrow> Inl e
      | Inr ss \<Rightarrow>
          (case update_row (\<lambda>a. appt_id a = appt_id appt) (\<lambda>a. a\<lparr>appt_status := CANCELLED\<rparr>)
                  (appointments tx) of
             Inl e \<Rightarrow> Inl e
           | Inr updated \<Rightarrow> Inr (tx\<lparr>slots := ss, appointments := fst updated\<rparr>, snd updated)))"

record cancel_reply =
  cancelled :: appointment
  slotReleased :: bool

definition cancelAppointment ::
  "db \<Rightarrow> db \<Rightarrow> ident \<Rightarrow> ident \<Rightarrow> timestamp \<Rightarrow> bool \<Rightarrow> cancel_reply response \<times> db" where
  "cancelAppointment pre d userId ident nowUtc redis_ok =
     (case findFirst (\<lambda>a. appt_id a = ident \<and> appt_userId a = userId) (appointments pre) of
        None \<Rightarrow> ((404, Inl APPOINTMENT_NOT_FOUND), d)
      | Some appt \<Rightarrow>
          if appt_status appt \<noteq> APPT_BOOKED then ((409, Inl ONLY_BOOKED_CAN_BE_CANCELLED), d)
          else
            let ts = timeSlot_of pre appt;
                isMoreThan24h =
                  (case ts of
                     None \<Rightarrow> True
                   | Some s \<Rightarrow> getUtcDateTime (date s) (startTime s) - nowUtc > dayMs)
            in (case transaction (cancelAppointment_tx appt ts isMoreThan24h) d of
                  (Inl e, d') \<Rightarrow> ((500, Inl INTERNAL_SERVER_ERROR), d')
                | (Inr updatedAppointment, d') \<Rightarrow>
                    (let u = catch_and_log (invalidate redis_ok)
                     in ((200, Inr \<lparr>cancelled = updatedAppointment,
                                    slotReleased = isMoreThan24h\<rparr>), d'))))"

section \<open>Rescheduling, second phase: the swap\<close>

definition free_data :: "time_slot \<Rightarrow> time_slot" where
  "free_data s = s\<lparr>slot_status := AVAILABLE, lockedBy := None, lockExpires := None\<rparr>"

definition confirmReschedule_tx ::
  "appointment \<Rightarrow> ident \<Rightarrow> ident \<Rightarrow> ident \<Rightarrow> ident \<Rightarrow> timestamp \<Rightarrow> ident \<Rightarrow> db
     \<Rightarrow> error + (db \<times> appointment)" where
  "confirmReschedule_tx appt userId newSlotId oldSlotId doctorId nowUtc newId tx =
     (case findFirst (\<lambda>s. slot_id s = newSlotId \<and> slot_doctorId s = doctorId) (slots tx) of
        None \<Rightarrow> Inl NEW_SLOT_NOT_FOUND
      | Some newSlot \<Rightarrow>
          if slot_status newSlot \<noteq> LOCKED \<or> lockedBy newSlot \<noteq> Some userId
             \<or> date_lt (lockExpires newSlot) nowUtc
          then Inl NEW_SLOT_NOT_LOCKED_BY_USER
          else if getUtcDateTime (date newSlot) (startTime newSlot) \<le> nowUtc
          then Inl SLOT_ALREADY_STARTED_OR_PAST
          else
            let bookedCount =
                  updateMany (\<lambda>s. slot_id s = newSlotId \<and> held_by userId nowUtc s)
                    book_data (slots tx)
            in if snd bookedCount \<noteq> 1 then Inl CONFLICT_NEW_SLOT
               else
                 (case update_row (\<lambda>a. appt_id a = appt_id appt)
                         (\<lambda>a. a\<lparr>appt_status := RESCHEDULED\<rparr>) (appointments tx) of
                    Inl e \<Rightarrow> Inl e
                  | Inr retired \<Rightarrow>
                      (case update_row (\<lambda>s. slot_id s = oldSlotId) free_data (fst bookedCount) of
                         Inl e \<Rightarrow> Inl e
                       | Inr freed \<Rightarrow>
                           let createdAppt =
                                 \<lparr>appt_id = newId, appt_userId = appt_userId appt,
                                  appt_doctorId = appt_doctorId appt,
                                  timeSlotId = Some newSlotId, appt_status = APPT_BOOKED,
                                  appt_notes = appt_notes appt\<rparr>;
                               detached =
                                 updateMany (\<lambda>a. timeSlotId a = Some newSlotId
                                                  \<and> appt_id a \<noteq> appt_id createdAppt)
                                   (\<lambda>a. a\<lparr>timeSlotId := None\<rparr>)
                                   (fst retired @ [createdAppt])
                           in Inr (tx\<lparr>slots := fst freed, appointments := fst detached\<rparr>,
                                   createdAppt))))"

definition errorMap :: "error \<Rightarrow> nat option" where
  "errorMap e =
     (if e = NEW_SLOT_NOT_FOUND then Some 404
      else if e = NEW_SLOT_NOT_LOCKED_BY_USER then Some 409
      else if e = SLOT_ALREADY_STARTED_OR_PAST then Some 400
      else if e = CONFLICT_NEW_SLOT then Some 409
      else None)"

definition confirmReschedule ::
  "db \<Rightarrow> db \<Rightarrow> ident \<Rightarrow> ident \<Rightarrow> ident \<Rightarrow> ident \<Rightarrow> ident \<Rightarrow> timestamp \<Rightarrow> ident \<Rightarrow> bool
     \<Rightarrow> appointment response \<times> db" where
  "confirmReschedule pre d userId appointmentId newSlotId oldSlotId doctorId nowUtc newId redis_ok =
     (if appointmentId = [] \<or> newSlotId = [] \<or> oldSlotId = [] \<or> doctorId = []
      then ((400, Inl VALIDATION_ERROR), d)
      else case findFirst (\<lambda>a. appt_id a = appointmentId \<and> appt_userId a = userId)
                  (appointments pre) of
        None \<Rightarrow> ((404, Inl APPOINTMENT_NOT_FOUND), d)
      | Some appt \<Rightarrow>
          if appt_status appt \<noteq> APPT_BOOKED then ((409, Inl ONLY_BOOKED_CAN_BE_RESCHEDULED), d)
          else if appt_doctorId appt \<noteq> doctorId then ((400, Inl DOCTOR_MISMATCH), d)
          else if timeSlotId appt \<noteq> Some oldSlotId then ((400, Inl OLD_SLOT_MISMATCH), d)
          else if oldSlotId = newSlotId then ((400, Inl NEW_SLOT_MUST_DIFFER), d)
          else
            (case transaction
                    (confirmReschedule_tx appt userId newSlotId oldSlotId doctorId nowUtc newId) d of
               (Inl e, d') \<Rightarrow>
                 (case errorMap e of
                    Some st \<Rightarrow> ((st, Inl e), d')
                  | None \<Rightarrow> ((500, Inl INTERNAL_SERVER_ERROR), d'))
             | (Inr newAppointment, d') \<Rightarrow>
                 (case invalidate redis_ok of
                    Inl e \<Rightarrow> ((500, Inl INTERNAL_SERVER_ERROR), d')
                  | Inr u \<Rightarrow> ((200, Inr newAppointment), d'))))"

section \<open>The periodic release of expired locks\<close>

definition unlock_data :: "time_slot \<Rightarrow> time_slot" where
  "unlock_data s =
     s\<lparr>slot_status := AVAILABLE, lockedBy := None, lockedAt := None, lockExpires := None\<rparr>"

definition releaseExpiredLocks :: "timestamp \<Rightarrow> db \<Rightarrow> db" where
  "releaseExpiredLocks now d =
     d\<lparr>slots := fst (updateMany (\<lambda>s. slot_status s = LOCKED \<and> date_lt (lockExpires s) now)
                       unlock_data (slots d))\<rparr>"

section \<open>Requests served one at a time\<close>

text \<open>
  A request carries what the router and the authentication hand to the handler; the
  identifier of a row to create is the one the store assigns to it. \<open>serve\<close> runs the
  handler of one request alone, at the given time of the store's clock, and keeps the
  store it leaves; \<open>run\<close> serves a list of requests in order.
\<close>

datatype request =
    LockTimeSlot ident ident ident
  | ConfirmBooking ident ident ident "string option" ident
  | UpdateAppointmentStatus ident ident appointment_status
  | RescheduleAppointment ident ident ident
  | CancelAppointment ident ident
  | ConfirmReschedule ident ident ident ident ident ident
  | ReleaseExpiredLocks

fun serve :: "timestamp \<times> request \<Rightarrow> db \<Rightarrow> db" where
  "serve (now, LockTimeSlot doctorId slotId userId) d =
     snd (lockTimeSlot d d doctorId slotId userId now True)"
| "serve (now, ConfirmBooking userId doctorId tsId notes newId) d =
     snd (confirmBooking d d userId doctorId tsId notes now newId True)"
| "serve (now, UpdateAppointmentStatus userId ident status) d =
     snd (updateAppointmentStatus d d userId ident status True)"
| "serve (now, RescheduleAppointment userId ident newTimeSlotId) d =
     snd (rescheduleAppointment d d userId ident newTimeSlotId now)"
| "serve (now, CancelAppointment userId ident) d =
     snd (cancelAppointment d d userId ident now True)"
| "serve (now, ConfirmReschedule userId appointmentId newSlotId oldSlotId doctorId newId) d =
     snd (confirmReschedule d d userId appointmentId newSlotId oldSlotId doctorId now newId True)"
| "serve (now, ReleaseExpiredLocks) d = releaseExpiredLocks now d"

definition run :: "(timestamp \<times> request) list \<Rightarrow> db \<Rightarrow> db" where
  "run reqs d = fold serve reqs d"

text \<open>The appointments with status \<open>BOOKED\<close> that point at a slot.\<close>

definition booked_on :: "db \<Rightarrow> ident \<Rightarrow> appointment list" where
  "booked_on d sid =
     filter (\<lambda>a. timeSlotId a = Some sid \<and> appt_status a = APPT_BOOKED) (appointments d)"

section \<open>A small clinic\<close>

text \<open>
  One doctor with four free slots on day 20000 after the epoch, and two users who have
  just verified their one-time passcode at \<open>t0\<close>, ten days earlier. The route of the
  status update is open to administrators only, and the handler to the owner of the
  appointment: user \<open>u1\<close> is an administrator who also books appointments.
\<close>

definition t0 :: timestamp where
  "t0 = 1727136000000"

definition free_slot :: "ident \<Rightarrow> string \<Rightarrow> string \<Rightarrow> time_slot" where
  "free_slot sid st et =
     \<lparr>slot_id = sid, slot_doctorId = ''d1'', date = 1728000000000, startTime = st,
      endTime = et, slot_status = AVAILABLE, lockedBy = None, lockedAt = None,
      lockExpires = None\<rparr>"

definition clinic :: db where
  "clinic =
     \<lparr>slots = [free_slot ''s1'' ''10:00'' ''10:30'', free_slot ''s2'' ''10:30'' ''11:00'',
               free_slot ''s3'' ''11:00'' ''11:30'', free_slot ''s4'' ''11:30'' ''12:00''],
      appointments = [],
      users = [\<lparr>user_id = ''u1'', otpVerifiedUntil = Some (t0 + 300000)\<rparr>,
               \<lparr>user_id = ''u2'', otpVerifiedUntil = Some (t0 + 300000)\<rparr>]\<rparr>"

text \<open>User \<open>u1\<close> locks slot \<open>s1\<close> at \<open>t0\<close> and confirms the booking a minute later.\<close>

definition locked1 :: db where
  "locked1 = run [(t0, LockTimeSlot ''d1'' ''s1'' ''u1'')] clinic"

definition booked1 :: db where
  "booked1 = run [(t0 + 60000, ConfirmBooking ''u1'' ''d1'' ''s1'' None ''a1'')] locked1"

definition appt1 :: appointment where
  "appt1 = \<lparr>appt_id = ''a1'', appt_userId = ''u1'', appt_doctorId = ''d1'',
            timeSlotId = Some ''s1'', appt_status = APPT_BOOKED, appt_notes = None\<rparr>"

text \<open>
  Two minutes after \<open>t0\<close> user \<open>u1\<close> asks to move appointment \<open>a1\<close> to slot \<open>s2\<close>, which
  locks \<open>s2\<close> until seven minutes after \<open>t0\<close>.
\<close>

definition relocked1 :: db where
  "relocked1 = run [(t0 + 120000, RescheduleAppointment ''u1'' ''a1'' ''s2'')] booked1"


text \<open>
  After the booking of \<open>s1\<close>, user \<open>u1\<close> cancels appointment \<open>a1\<close> ten days ahead, which
  frees the slot, sets the appointment back to \<open>BOOKED\<close> through the status update, and
  user \<open>u2\<close> locks the free slot.
\<close>

definition revived :: db where
  "revived =
     run [(t0 + 120000, CancelAppointment ''u1'' ''a1''),
          (t0 + 180000, UpdateAppointmentStatus ''u1'' ''a1'' APPT_BOOKED),
          (t0 + 240000, LockTimeSlot ''d1'' ''s1'' ''u2'')] booked1"

text \<open>User \<open>u1\<close> locks slot \<open>s1\<close> one minute before \<open>t0\<close>.\<close>

definition early_lock :: db where
  "early_lock = run [(t0 - 60000, LockTimeSlot ''d1'' ''s1'' ''u1'')] clinic"

text \<open>
  After the booking of \<open>s1\<close>, user \<open>u1\<close> cancels appointment \<open>a1\<close> ten days ahead, which
  frees the slot; user \<open>u2\<close> locks the slot and confirms the booking, appointment \<open>a2\<close>.
\<close>

definition second_booking :: db where
  "second_booking =
     run [(t0 + 120000, CancelAppointment ''u1'' ''a1''),
          (t0 + 180000, LockTimeSlot ''d1'' ''s1'' ''u2''),
          (t0 + 240000, ConfirmBooking ''u2'' ''d1'' ''s1'' None ''a2'')] booked1"

text \<open>
  Three minutes after \<open>t0\<close> user \<open>u1\<close> confirms the move of appointment \<open>a1\<close> from \<open>s1\<close> to
  \<open>s2\<close>, which creates appointment \<open>a2\<close>; later the same user moves \<open>a2\<close> back to \<open>s1\<close>, which creates
  appointment \<open>a3\<close>.
\<close>

definition swapped :: db where
  "swapped =
     run [(t0 + 180000, ConfirmReschedule ''u1'' ''a1'' ''s2'' ''s1'' ''d1'' ''a2'')] relocked1"

definition swapped_back :: db where
  "swapped_back =
     run [(t0 + 240000, RescheduleAppointment ''u1'' ''a2'' ''s1''),
          (t0 + 300000, ConfirmReschedule ''u1'' ''a2'' ''s1'' ''s2'' ''d1'' ''a3'')] swapped"

definition appt2 :: appointment where
  "appt2 = \<lparr>appt_id = ''a2'', appt_userId = ''u1'', appt_doctorId = ''d1'',
            timeSlotId = Some ''s2'', appt_status = APPT_BOOKED, appt_notes = None\<rparr>"

text \<open>What is read of an appointment row in the examples: identifier, status and slot.\<close>

definition summary :: "db \<Rightarrow> (ident \<times> appointment_status \<times> ident option) list" where
  "summary d = map (\<lambda>a. (appt_id a, appt_status a, timeSlotId a)) (appointments d)"

text \<open>Two minutes after \<open>t0\<close>, with \<open>s1\<close> booked by \<open>u1\<close>, user \<open>u2\<close> locks slot \<open>s2\<close>.\<close>

definition other_lock :: db where
  "other_lock = run [(t0 + 120000, LockTimeSlot ''d1'' ''s2'' ''u2'')] booked1"

text \<open>What is read of a slot row in the examples: identifier, status and the lock fields.\<close>

definition lock_columns ::
  "db \<Rightarrow> (ident \<times> slot_status \<times> ident option \<times> timestamp option \<times> timestamp option) list" where
  "lock_columns d =
     map (\<lambda>s. (slot_id s, slot_status s, lockedBy s, lockedAt s, lockExpires s)) (slots d)"

section \<open>Facts about the store client\<close>

lemma transaction_rollback: "transaction body d = (Inl e, d') \<Longrightarrow> d' = d"
  by (auto simp: transaction_def split: sum.splits prod.splits)

lemma transaction_commit: "transaction body d = (Inr a, d') \<Longrightarrow> body d = Inr (d', a)"
  by (auto simp: transaction_def split: sum.splits prod.splits)

lemma date_gt_iff: "date_gt x n \<longleftrightarrow> (\<exists>t. x = Some t \<and> n < t)"
  by (cases x) auto

lemma findFirst_SomeD: "findFirst P rows = Some r \<Longrightarrow> P r \<and> r \<in> set rows"
  by (auto simp: findFirst_def find_Some_iff)



lemma update_row_found:
  assumes "r \<in> set rows" and "P r"
  shows "\<exists>r'. P r' \<and> update_row P f rows = Inr (map (\<lambda>x. if P x then f x else x) rows, f r')"
proof (cases "find P rows")
  case None
  with assms show ?thesis by (auto simp: find_None_iff)
next
  case (Some r')
  then have "P r'" by (auto simp: find_Some_iff)
  with Some show ?thesis by (auto simp: update_row_def)
qed

lemma timeSlot_of_SomeD:
  "timeSlot_of d a = Some ts \<Longrightarrow> timeSlotId a = Some (slot_id ts) \<and> ts \<in> set (slots d)"
  by (auto simp: timeSlot_of_def split: option.splits dest: findFirst_SomeD)

section \<open>Locking a free slot\<close>





text \<open>
  The refusal of a \<open>LOCKED\<close> slot does not depend on who holds the lock or when it ends.
  The first phase of a reschedule takes its lock with the same conditional write and has no
  such test: eight minutes after \<open>t0\<close> it gives \<open>u1\<close> the slot \<open>s2\<close> that \<open>u2\<close> locked six
  minutes before.
\<close>

lemma lockTimeSlot_refuses_locked:
  assumes "doctorId \<noteq> []" "slotId \<noteq> []"
    and "findFirst (\<lambda>s. slot_id s = slotId \<and> slot_doctorId s = doctorId) (slots pre) = Some slot"
    and "slot_status slot = LOCKED"
  shows "lockTimeSlot pre d doctorId slotId userId nowUtc redis_ok
           = ((409, Inl TIME_SLOT_ALREADY_LOCKED), d)"
  using assms by (simp add: lockTimeSlot_def)

text \<open>
  The refusal at the cap in general: three or more unexpired locks of the user, as the
  handler counts them, and a free slot.
\<close>

lemma lockTimeSlot_cap:
  assumes "doctorId \<noteq> []" "slotId \<noteq> []"
    and "findFirst (\<lambda>s. slot_id s = slotId \<and> slot_doctorId s = doctorId) (slots pre) = Some slot"
    and "slot_status slot = AVAILABLE"
    and "3 \<le> count_rows (\<lambda>s. lockedBy s = Some userId \<and> slot_status s = LOCKED
                              \<and> date_gt (lockExpires s) nowUtc) (slots pre)"
  shows "lockTimeSlot pre d doctorId slotId userId nowUtc redis_ok
           = ((429, Inl LOCK_LIMIT_REACHED), d)"
  using assms by (simp add: lockTimeSlot_def Let_def)

lemma rescheduleAppointment_takes_expired_lock:
  "map (\<lambda>s. (slot_status s, lockedBy s, lockExpires s)) (slots other_lock)
     = [(BOOKED, None, None), (LOCKED, Some ''u2'', Some (t0 + 420000)),
        (AVAILABLE, None, None), (AVAILABLE, None, None)]
   \<and> fst (rescheduleAppointment other_lock other_lock ''u1'' ''a1'' ''s2'' (t0 + 480000))
       = (200, Inr (\<lparr>lease_slotId = ''s2'', lease_doctorId = ''d1'', lease_lockedBy = ''u1'',
                      lease_lockedAt = t0 + 480000, expiresAt = t0 + 780000\<rparr>, Some ''s1''))"
  by code_simp

section \<open>Confirming a booking is all or nothing\<close>

lemma confirmBooking_tx_Inr:
  "confirmBooking_tx slot userId doctorId tsId notes nowUtc newId d = Inr (d', appt) \<Longrightarrow>
     appt = \<lparr>appt_id = newId, appt_userId = userId, appt_doctorId = doctorId,
              timeSlotId = Some tsId, appt_status = APPT_BOOKED,
              appt_notes = (if notes = Some [] then None else notes)\<rparr>
     \<and> count_rows (\<lambda>s. slot_id s = tsId \<and> slot_doctorId s = doctorId \<and> held_by userId nowUtc s)
           (slots d) = 1
     \<and> slots d' = map (\<lambda>s. if slot_id s = tsId \<and> slot_doctorId s = doctorId
                               \<and> held_by userId nowUtc s
                            then book_data s else s) (slots d)
     \<and> appointments d' = appointments d @ [appt]
     \<and> users d' = map (\<lambda>u. if user_id u = userId then u\<lparr>otpVerifiedUntil := None\<rparr> else u)
                     (users d)"
  by (auto simp: confirmBooking_tx_def Let_def updateMany_def update_row_def
           split: if_splits sum.splits option.splits)

text \<open>
  Claim C3. Whatever the stores \<open>pre\<close> and \<open>d\<close> that the reads and the transaction of
  \<open>confirmBooking\<close> meet, the handler ends in one of two ways. Either it answers 201 with
  the new appointment, and then all three effects are in the store it leaves: exactly one
  slot row had the identifier and the doctor of the request, status \<open>LOCKED\<close>, the
  requesting user as \<open>lockedBy\<close> and a \<open>lockExpires\<close> after the store's clock, and that row
  now has status \<open>BOOKED\<close> with \<open>lockedBy\<close>, \<open>lockedAt\<close> and \<open>lockExpires\<close> null, every other
  slot row being as it was; exactly one appointment row, with status \<open>BOOKED\<close> for that
  slot, has been added; and the user's \<open>otpVerifiedUntil\<close> is null. Or it answers with an
  error, whichever it is, and the store is the one the transaction met: no effect at all.
  So no store with the slot booked and no appointment row comes out of this handler.
\<close>

theorem confirmBooking_atomic:
  "confirmBooking pre d userId doctorId tsId notes nowUtc newId redis_ok = (r, d') \<Longrightarrow>
     (\<exists>appt. r = (201, Inr appt)
        \<and> appt = \<lparr>appt_id = newId, appt_userId = userId, appt_doctorId = doctorId,
                   timeSlotId = Some tsId, appt_status = APPT_BOOKED,
                   appt_notes = (if notes = Some [] then None else notes)\<rparr>
        \<and> length (filter (\<lambda>s. slot_id s = tsId \<and> slot_doctorId s = doctorId
                               \<and> slot_status s = LOCKED \<and> lockedBy s = Some userId
                               \<and> (\<exists>t. lockExpires s = Some t \<and> nowUtc < t)) (slots d)) = 1
        \<and> slots d' = map (\<lambda>s. if slot_id s = tsId \<and> slot_doctorId s = doctorId
                                  \<and> slot_status s = LOCKED \<and> lockedBy s = Some userId
                                  \<and> (\<exists>t. lockExpires s = Some t \<and> nowUtc < t)
                               then s\<lparr>slot_status := BOOKED, lockedBy := None, lockedAt := None,
                                      lockExpires := None\<rparr>
                               else s) (slots d)
        \<and> appointments d' = appointments d @ [appt]
        \<and> users d' = map (\<lambda>u. if user_id u = userId then u\<lparr>otpVerifiedUntil := None\<rparr> else u)
                        (users d))
     \<or> (\<exists>st e. r = (st, Inl e) \<and> d' = d)"
  unfolding confirmBooking_def
  by (auto simp: Let_def held_by_def book_data_def count_rows_def date_gt_iff
      split: if_splits option.splits prod.splits sum.splits
      dest!: transaction_rollback transaction_commit confirmBooking_tx_Inr)

lemma confirm_locked1:
  "confirmBooking locked1 locked1 ''u1'' ''d1'' ''s1'' None (t0 + 60000) ''a1'' True
     = ((201, Inr appt1), booked1)"
  by code_simp

text \<open>
  A rollback after a write: in the store \<open>revived\<close> slot \<open>s1\<close> is locked by \<open>u2\<close> while
  appointment \<open>a1\<close> is \<open>BOOKED\<close> on it. The transaction of \<open>u2\<close> writes the slot, then finds
  the booked appointment and throws; the slot stays \<open>LOCKED\<close>.
\<close>

lemma confirm_revived_rolls_back:
  "confirmBooking revived revived ''u2'' ''d1'' ''s1'' None (t0 + 250000) ''a2'' True
     = ((409, Inl SLOT_ALREADY_BOOKED), revived)"
  by code_simp

text \<open>
  The instance: the columns of the slot rows, the appointments and the passcode gates
  before and after \<open>u1\<close> confirms slot \<open>s1\<close>, and the rollback above.
\<close>

theorem confirmBooking_atomic_witness:
  "confirmBooking locked1 locked1 ''u1'' ''d1'' ''s1'' None (t0 + 60000) ''a1'' True
     = ((201, Inr appt1), booked1)
   \<and> lock_columns locked1
       = [(''s1'', LOCKED, Some ''u1'', Some t0, Some (t0 + 300000)),
          (''s2'', AVAILABLE, None, None, None), (''s3'', AVAILABLE, None, None, None),
          (''s4'', AVAILABLE, None, None, None)]
   \<and> lock_columns booked1
       = [(''s1'', BOOKED, None, None, None),
          (''s2'', AVAILABLE, None, None, None), (''s3'', AVAILABLE, None, None, None),
          (''s4'', AVAILABLE, None, None, None)]
   \<and> appointments locked1 = [] \<and> appointments booked1 = [appt1]
   \<and> map otpVerifiedUntil (users locked1) = [Some (t0 + 300000), Some (t0 + 300000)]
   \<and> map otpVerifiedUntil (users booked1) = [None, Some (t0 + 300000)]
   \<and> confirmBooking revived revived ''u2'' ''d1'' ''s1'' None (t0 + 250000) ''a2'' True
       = ((409, Inl SLOT_ALREADY_BOOKED), revived)"
proof -
  have before: "lock_columns locked1
       = [(''s1'', LOCKED, Some ''u1'', Some t0, Some (t0 + 300000)),
          (''s2'', AVAILABLE, None, None, None), (''s3'', AVAILABLE, None, None, None),
          (''s4'', AVAILABLE, None, None, None)]"
    "appointments locked1 = []"
    "map otpVerifiedUntil (users locked1) = [Some (t0 + 300000), Some (t0 + 300000)]"
    "map user_id (users locked1) = [''u1'', ''u2'']"
    "map slot_doctorId (slots locked1) = [''d1'', ''d1'', ''d1'', ''d1'']"
    by code_simp+
  from confirmBooking_atomic [OF confirm_locked1]
  have after: "slots booked1
        = map (\<lambda>s. if slot_id s = ''s1'' \<and> slot_doctorId s = ''d1''
                       \<and> slot_status s = LOCKED \<and> lockedBy s = Some ''u1''
                       \<and> (\<exists>t. lockExpires s = Some t \<and> t0 + 60000 < t)
                    then s\<lparr>slot_status := BOOKED, lockedBy := None, lockedAt := None,
                           lockExpires := None\<rparr>
                    else s) (slots locked1)"
    "appointments booked1 = appointments locked1 @ [appt1]"
    "users booked1 = map (\<lambda>u. if user_id u = ''u1'' then u\<lparr>otpVerifiedUntil := None\<rparr> else u)
                       (users locked1)"
    by auto
  obtain a b c e where rows: "slots locked1 = [a, b, c, e]"
    using before(1) by (auto simp: lock_columns_def)
  have "lock_columns booked1
       = [(''s1'', BOOKED, None, None, None),
          (''s2'', AVAILABLE, None, None, None), (''s3'', AVAILABLE, None, None, None),
          (''s4'', AVAILABLE, None, None, None)]"
    using before(1,5) unfolding lock_columns_def after(1) rows by (auto simp: t0_def)
  moreover obtain u v where us: "users locked1 = [u, v]"
    using before(4) by auto
  have "map otpVerifiedUntil (users booked1) = [None, Some (t0 + 300000)]"
    using before(3,4) unfolding after(3) us by auto
  ultimately show ?thesis
    using confirm_locked1 confirm_revived_rolls_back before(1,2,3) after(2) by simp
qed

section \<open>The swap of a reschedule is all or nothing\<close>




section \<open>Updating a status touches one field of one table\<close>

text \<open>
  Claim C10. \<open>updateAppointmentStatus\<close> leaves the slot table and the user table as they
  are, and the appointment table either as it is or with the status of the target row
  replaced by the requested one and nothing else changed. It does not depend on the slot
  table either: with any other slot tables in the stores it meets, it gives the same
  answer and the same appointments. So a \<open>BOOKED\<close> appointment set to \<open>CANCELLED\<close> this way
  leaves its slot \<open>BOOKED\<close>.
\<close>

theorem updateAppointmentStatus_frame:
  "updateAppointmentStatus pre d userId ident status redis_ok = (r, d') \<Longrightarrow>
     slots d' = slots d \<and> users d' = users d
     \<and> (appointments d' = appointments d
        \<or> appointments d' = map (\<lambda>a. if appt_id a = ident then a\<lparr>appt_status := status\<rparr> else a)
                               (appointments d))
     \<and> updateAppointmentStatus (pre\<lparr>slots := ss\<rparr>) (d\<lparr>slots := ss'\<rparr>) userId ident status redis_ok
         = (r, d'\<lparr>slots := ss'\<rparr>)"
  unfolding updateAppointmentStatus_def
  by (auto simp: Let_def update_row_def invalidate_def
           split: if_splits option.splits sum.splits dest!: findFirst_SomeD)

lemma cancel_by_status_booked1:
  "updateAppointmentStatus booked1 booked1 ''u1'' ''a1'' CANCELLED True
     = ((200, Inr \<lparr>reply_changed = True, reply_id = ''a1'', reply_status = CANCELLED\<rparr>),
        booked1\<lparr>appointments := [appt1\<lparr>appt_status := CANCELLED\<rparr>]\<rparr>)"
  by code_simp

theorem updateAppointmentStatus_frame_witness:
  "updateAppointmentStatus booked1 booked1 ''u1'' ''a1'' CANCELLED True
     = ((200, Inr \<lparr>reply_changed = True, reply_id = ''a1'', reply_status = CANCELLED\<rparr>),
        booked1\<lparr>appointments := [appt1\<lparr>appt_status := CANCELLED\<rparr>]\<rparr>)
   \<and> slots (booked1\<lparr>appointments := [appt1\<lparr>appt_status := CANCELLED\<rparr>]\<rparr>) = slots booked1
   \<and> map slot_status (slots booked1) = [BOOKED, AVAILABLE, AVAILABLE, AVAILABLE]"
proof -
  have "map slot_status (slots booked1) = [BOOKED, AVAILABLE, AVAILABLE, AVAILABLE]"
    by code_simp
  then show ?thesis
    using updateAppointmentStatus_frame [OF cancel_by_status_booked1] cancel_by_status_booked1
    by simp
qed

section \<open>Cancelling and the release of the slot\<close>

text \<open>
  Claim C5, as the handler has it. A call of \<open>cancelAppointment\<close>, served alone, on a
  \<open>BOOKED\<close> appointment of the caller that points at a slot: the answer is 200, the
  appointment becomes \<open>CANCELLED\<close> and no other appointment changes. If the start of the
  slot is more than 24 hours after the store's clock and the status of the slot is
  \<open>BOOKED\<close>, the slot becomes \<open>AVAILABLE\<close> with \<open>lockedAt\<close> and \<open>lockedBy\<close> null. In every
  other case the slot table stays as it is: when the start is at most 24 hours away, exactly
  24 hours included, and also when the start is further away but the slot is not
  \<open>BOOKED\<close>.
\<close>

theorem cancelAppointment_release_policy:
  assumes found: "findFirst (\<lambda>a. appt_id a = ident \<and> appt_userId a = userId) (appointments d)
                    = Some appt"
    and booked: "appt_status appt = APPT_BOOKED"
    and slot: "timeSlot_of d appt = Some ts"
  shows "\<exists>reply d'. cancelAppointment d d userId ident nowUtc redis_ok = ((200, Inr reply), d')
           \<and> appt_status (cancelled reply) = CANCELLED
           \<and> appointments d'
               = map (\<lambda>a. if appt_id a = ident then a\<lparr>appt_status := CANCELLED\<rparr> else a)
                   (appointments d)
           \<and> users d' = users d
           \<and> slots d'
               = (if dayMs < getUtcDateTime (date ts) (startTime ts) - nowUtc
                     \<and> slot_status ts = BOOKED
                  then map (\<lambda>s. if slot_id s = slot_id ts
                                 then s\<lparr>slot_status := AVAILABLE, lockedAt := None,
                                        lockedBy := None\<rparr>
                                 else s) (slots d)
                  else slots d)"
proof -
  from found have a: "appt_id appt = ident" "appt \<in> set (appointments d)"
    by (auto dest: findFirst_SomeD)
  from slot have s: "timeSlotId appt = Some (slot_id ts)" "ts \<in> set (slots d)"
    by (auto dest: timeSlot_of_SomeD)
  obtain a' where a':
    "update_row (\<lambda>x. appt_id x = appt_id appt) (\<lambda>x. x\<lparr>appt_status := CANCELLED\<rparr>)
         (appointments d)
       = Inr (map (\<lambda>x. if appt_id x = ident then x\<lparr>appt_status := CANCELLED\<rparr> else x)
                (appointments d), a'\<lparr>appt_status := CANCELLED\<rparr>)"
    using update_row_found [OF a(2), of "\<lambda>x. appt_id x = appt_id appt"] a(1) by auto
  obtain s' where s':
    "update_row (\<lambda>x. Some (slot_id x) = timeSlotId appt) release_data (slots d)
       = Inr (map (\<lambda>x. if slot_id x = slot_id ts then release_data x else x) (slots d),
              release_data s')"
    using update_row_found [OF s(2), of "\<lambda>x. Some (slot_id x) = timeSlotId appt"] s(1) by auto
  show ?thesis
    using found booked slot a' s'
    by (simp add: cancelAppointment_def cancelAppointment_tx_def transaction_def Let_def
          release_data_def catch_and_log_def)
qed

text \<open>
  Two instances on the store \<open>booked1\<close>, whose slot \<open>s1\<close> starts at 10:00 on day 20000: ten
  days ahead the slot is released; exactly 24 hours ahead it is not.
\<close>

theorem cancelAppointment_release_policy_witness:
  "findFirst (\<lambda>a. appt_id a = ''a1'' \<and> appt_userId a = ''u1'') (appointments booked1) = Some appt1
   \<and> appt_status appt1 = APPT_BOOKED
   \<and> timeSlot_of booked1 appt1 = Some (book_data (free_slot ''s1'' ''10:00'' ''10:30''))
   \<and> dayMs < getUtcDateTime 1728000000000 ''10:00'' - (t0 + 120000)
   \<and> map slot_status (slots (snd (cancelAppointment booked1 booked1 ''u1'' ''a1'' (t0 + 120000) True)))
       = [AVAILABLE, AVAILABLE, AVAILABLE, AVAILABLE]
   \<and> getUtcDateTime 1728000000000 ''10:00'' - 1727949600000 = dayMs
   \<and> slots (snd (cancelAppointment booked1 booked1 ''u1'' ''a1'' 1727949600000 True))
       = slots booked1
   \<and> map appt_status
        (appointments (snd (cancelAppointment booked1 booked1 ''u1'' ''a1'' 1727949600000 True)))
       = [CANCELLED]"
proof -
  let ?ts = "book_data (free_slot ''s1'' ''10:00'' ''10:30'')"
  have h1: "findFirst (\<lambda>a. appt_id a = ''a1'' \<and> appt_userId a = ''u1'') (appointments booked1)
              = Some appt1" by code_simp
  have h2: "appt_status appt1 = APPT_BOOKED" by code_simp
  have h3: "timeSlot_of booked1 appt1 = Some ?ts" by code_simp
  have far: "dayMs < getUtcDateTime 1728000000000 ''10:00'' - (t0 + 120000)" by code_simp
  have edge: "getUtcDateTime 1728000000000 ''10:00'' - 1727949600000 = dayMs" by code_simp
  have ts: "date ?ts = 1728000000000" "startTime ?ts = ''10:00''" "slot_status ?ts = BOOKED"
    "slot_id ?ts = ''s1''"
    by (simp_all add: book_data_def free_slot_def)
  from cancelAppointment_release_policy [OF h1 h2 h3, of "t0 + 120000" True] far ts
  have freed: "slots (snd (cancelAppointment booked1 booked1 ''u1'' ''a1'' (t0 + 120000) True))
          = map (\<lambda>s. if slot_id s = ''s1''
                      then s\<lparr>slot_status := AVAILABLE, lockedAt := None, lockedBy := None\<rparr>
                      else s) (slots booked1)"
    by auto
  from cancelAppointment_release_policy [OF h1 h2 h3, of 1727949600000 True] edge ts
  have kept: "slots (snd (cancelAppointment booked1 booked1 ''u1'' ''a1'' 1727949600000 True))
                = slots booked1"
    and gone: "appointments (snd (cancelAppointment booked1 booked1 ''u1'' ''a1'' 1727949600000 True))
                = map (\<lambda>a. if appt_id a = ''a1'' then a\<lparr>appt_status := CANCELLED\<rparr> else a)
                    (appointments booked1)"
    by auto
  have "map (\<lambda>s. (slot_id s, slot_status s)) (slots booked1)
          = [(''s1'', BOOKED), (''s2'', AVAILABLE), (''s3'', AVAILABLE), (''s4'', AVAILABLE)]"
    by code_simp
  then have "map slot_status
               (map (\<lambda>s. if slot_id s = ''s1''
                          then s\<lparr>slot_status := AVAILABLE, lockedAt := None, lockedBy := None\<rparr>
                          else s) (slots booked1))
          = [AVAILABLE, AVAILABLE, AVAILABLE, AVAILABLE]"
    by auto
  moreover have "map appt_status
                   (map (\<lambda>a. if appt_id a = ''a1'' then a\<lparr>appt_status := CANCELLED\<rparr> else a)
                      (appointments booked1))
       = [CANCELLED]"
    by code_simp
  ultimately show ?thesis
    using h1 h2 h3 far edge kept freed gone by simp
qed

text \<open>
  The claim as it is written fails where the slot of a \<open>BOOKED\<close> appointment is not itself
  \<open>BOOKED\<close>. In the store \<open>revived\<close> appointment \<open>a1\<close> is \<open>BOOKED\<close> on slot \<open>s1\<close>, which
  user \<open>u2\<close> holds locked and which starts ten days later. Cancelling \<open>a1\<close> answers that the
  slot was released and leaves it \<open>LOCKED\<close>.
\<close>

theorem cancelAppointment_counterexample:
  "map (\<lambda>a. (appt_id a, appt_status a, timeSlotId a)) (appointments revived)
     = [(''a1'', APPT_BOOKED, Some ''s1'')]
   \<and> map slot_status (slots revived) = [LOCKED, AVAILABLE, AVAILABLE, AVAILABLE]
   \<and> dayMs < getUtcDateTime 1728000000000 ''10:00'' - (t0 + 300000)
   \<and> fst (cancelAppointment revived revived ''u1'' ''a1'' (t0 + 300000) True)
       = (200, Inr \<lparr>cancelled = appt1\<lparr>appt_status := CANCELLED\<rparr>, slotReleased = True\<rparr>)
   \<and> map slot_status (slots (snd (cancelAppointment revived revived ''u1'' ''a1'' (t0 + 300000) True)))
       = [LOCKED, AVAILABLE, AVAILABLE, AVAILABLE]"
  by code_simp

text \<open>
  When other requests commit between the reads of the handler and its transaction, the
  same holds of a call that answers 200, with the appointment, the status and the start of
  the slot as the handler read them and the writes applied to the store the transaction
  met.
\<close>

lemma cancelAppointment_release_as_read:
  assumes c: "cancelAppointment pre d userId ident nowUtc redis_ok = ((200, Inr reply), d')"
    and found: "findFirst (\<lambda>a. appt_id a = ident \<and> appt_userId a = userId) (appointments pre)
                  = Some appt"
    and slot: "timeSlot_of pre appt = Some ts"
  shows "appointments d'
           = map (\<lambda>a. if appt_id a = ident then a\<lparr>appt_status := CANCELLED\<rparr> else a)
               (appointments d)
         \<and> users d' = users d
         \<and> slots d'
             = (if dayMs < getUtcDateTime (date ts) (startTime ts) - nowUtc
                   \<and> slot_status ts = BOOKED
                then map (\<lambda>s. if slot_id s = slot_id ts
                               then s\<lparr>slot_status := AVAILABLE, lockedAt := None,
                                      lockedBy := None\<rparr>
                               else s) (slots d)
                else slots d)"
proof -
  from found have a: "appt_id appt = ident" by (auto dest: findFirst_SomeD)
  from slot have s: "timeSlotId appt = Some (slot_id ts)" by (auto dest: timeSlot_of_SomeD)
  show ?thesis
    using c found slot a s unfolding cancelAppointment_def
    by (auto simp: Let_def transaction_def cancelAppointment_tx_def update_row_def release_data_def
        split: if_splits option.splits prod.splits sum.splits)
qed

section \<open>A lease ends five minutes after it was taken\<close>

lemma lockTimeSlot_success:
  assumes "lockTimeSlot pre d doctorId slotId userId nowUtc redis_ok = ((200, Inr l), d')"
  shows "l = \<lparr>lease_slotId = slotId, lease_doctorId = doctorId, lease_lockedBy = userId,
              lease_lockedAt = nowUtc, expiresAt = nowUtc + 300000\<rparr>"
    and "count_rows (\<lambda>s. slot_id s = slotId \<and> slot_doctorId s = doctorId
                         \<and> (slot_status s = AVAILABLE \<or> lockedBy s = Some userId
                            \<or> date_lt (lockExpires s) nowUtc)) (slots d) = 1"
    and "d' = d\<lparr>slots := map (\<lambda>s. if slot_id s = slotId \<and> slot_doctorId s = doctorId
                         \<and> (slot_status s = AVAILABLE \<or> lockedBy s = Some userId
                            \<or> date_lt (lockExpires s) nowUtc) then lock_data userId nowUtc s else s) (slots d)\<rparr>"
  using assms
  by (auto simp: lockTimeSlot_def Let_def updateMany_def split: if_splits option.splits)

lemma distinct_key_unique:
  "distinct (map key rows) \<Longrightarrow> x \<in> set rows \<Longrightarrow> y \<in> set rows \<Longrightarrow> key x = key y \<Longrightarrow> x = y"
  by (auto simp: distinct_map dest: inj_onD)

lemma count_rows_pos: "0 < count_rows P rows \<Longrightarrow> \<exists>x \<in> set rows. P x"
  by (induction rows) (auto simp: count_rows_def split: if_splits)

lemma lease_rows:
  assumes lock: "lockTimeSlot pre d doctorId slotId userId T redis_ok = ((200, Inr l), d')"
    and keys: "distinct (map slot_id (slots d))"
    and row: "s \<in> set (slots d')" "slot_id s = slotId"
  shows "slot_status s = LOCKED \<and> lockedBy s = Some userId \<and> lockExpires s = Some (T + 300000)
         \<and> slot_doctorId s = doctorId"
proof -
  let ?W = "\<lambda>s. slot_id s = slotId \<and> slot_doctorId s = doctorId
                         \<and> (slot_status s = AVAILABLE \<or> lockedBy s = Some userId
                            \<or> date_lt (lockExpires s) T)"
  from lockTimeSlot_success(2) [OF lock] obtain x where x: "x \<in> set (slots d)" "?W x"
    using count_rows_pos [of ?W "slots d"] by auto
  from row lockTimeSlot_success(3) [OF lock]
  obtain s0 where s0: "s0 \<in> set (slots d)" "s = (if ?W s0 then lock_data userId T s0 else s0)"
    by auto
  then have "slot_id s0 = slotId"
    using row(2) by (auto simp: lock_data_def split: if_splits)
  with x s0(1) keys have "s0 = x"
    by (auto dest: distinct_key_unique)
  with x s0 show ?thesis
    by (simp add: lock_data_def)
qed

lemma confirmBooking_tx_without_lock:
  assumes nolock: "\<And>s. s \<in> set (slots d) \<Longrightarrow> slot_id s = tsId \<Longrightarrow> \<not> held_by userId nowUtc s"
    and tx: "transaction (confirmBooking_tx slot userId doctorId tsId notes nowUtc newId) d
               = (res, d')"
  shows "d' = d \<and> (\<exists>e. res = Inl e
                 \<and> e \<in> {SLOT_IN_PAST, SLOT_ALREADY_STARTED, CONFLICT_SLOT_STATE})"
proof -
  have "count_rows (\<lambda>s. slot_id s = tsId \<and> slot_doctorId s = doctorId \<and> held_by userId nowUtc s)
          (slots d) = 0"
    using nolock by (auto simp: count_rows_def filter_empty_conv)
  then have "\<exists>e. confirmBooking_tx slot userId doctorId tsId notes nowUtc newId d = Inl e
               \<and> e \<in> {SLOT_IN_PAST, SLOT_ALREADY_STARTED, CONFLICT_SLOT_STATE}"
    by (simp add: confirmBooking_tx_def Let_def updateMany_def)
  with tx show ?thesis
    by (auto simp: transaction_def)
qed

lemma confirmBooking_without_lock:
  assumes conf: "confirmBooking pre d userId doctorId tsId notes nowUtc newId ok = (r, d')"
    and nolock: "\<And>s. s \<in> set (slots d) \<Longrightarrow> slot_id s = tsId \<Longrightarrow> \<not> held_by userId nowUtc s"
  shows "d' = d \<and> (\<exists>st e. r = (st, Inl e)
            \<and> e \<in> {VALIDATION_ERROR, SLOT_NOT_FOUND, SLOT_ALREADY_BOOKED, OTP_REQUIRED,
                    LOCK_INVALID, SLOT_IN_PAST, SLOT_ALREADY_STARTED, CONFLICT_SLOT_STATE})"
  using conf unfolding confirmBooking_def
  by (auto split: if_splits option.splits prod.splits sum.splits
           dest!: confirmBooking_tx_without_lock [OF nolock, rotated 2])

lemma confirmBooking_stale_lock:
  assumes conf: "confirmBooking d d userId doctorId tsId notes nowUtc newId ok = (r, d')"
    and rows: "\<And>s. s \<in> set (slots d) \<Longrightarrow> slot_id s = tsId \<Longrightarrow>
                 slot_status s = LOCKED \<and> \<not> held_by userId nowUtc s \<and> slot_doctorId s = doc"
    and ex: "\<exists>s \<in> set (slots d). slot_id s = tsId"
  shows "\<exists>st e. r = (st, Inl e) \<and> e \<in> {VALIDATION_ERROR, SLOT_NOT_FOUND, OTP_REQUIRED, LOCK_INVALID}"
    and "validateAppointment doctorId tsId notes \<Longrightarrow> doctorId = doc \<Longrightarrow>
         \<not> otp_required (findFirst (\<lambda>u. user_id u = userId) (users d)) nowUtc \<Longrightarrow>
         r = (409, Inl LOCK_INVALID)"
proof -
  from ex obtain slot where slot: "findFirst (\<lambda>s. slot_id s = tsId) (slots d) = Some slot"
    by (cases "findFirst (\<lambda>s. slot_id s = tsId) (slots d)") (auto simp: findFirst_def find_None_iff)
  then have "slot_status slot = LOCKED" "\<not> held_by userId nowUtc slot" "slot_doctorId slot = doc"
    using rows [of slot] by (auto dest: findFirst_SomeD)
  with conf slot
  show "\<exists>st e. r = (st, Inl e) \<and> e \<in> {VALIDATION_ERROR, SLOT_NOT_FOUND, OTP_REQUIRED, LOCK_INVALID}"
    and "validateAppointment doctorId tsId notes \<Longrightarrow> doctorId = doc \<Longrightarrow>
         \<not> otp_required (findFirst (\<lambda>u. user_id u = userId) (users d)) nowUtc \<Longrightarrow>
         r = (409, Inl LOCK_INVALID)"
    unfolding confirmBooking_def by (auto split: if_splits)
qed

text \<open>
  Claim C6, as the handler has it. A lease that \<open>lockTimeSlot\<close> grants at time T ends at
  T + 5 minutes, and at every time from then on \<open>confirmBooking\<close> for that slot, by any
  user, answers an error and leaves the store as it is, so the slot does not become
  \<open>BOOKED\<close>. Whatever store the reads of the handler saw, the error is one of eight
  errors of the handler. When the handler runs alone the error is \<open>LOCK_INVALID\<close>, unless an earlier
  check answers first: a malformed body, \<open>SLOT_NOT_FOUND\<close> for another doctor, or
  \<open>OTP_REQUIRED\<close> when the passcode verification of the user is no longer valid.
  \<open>CONFLICT_SLOT_STATE\<close> needs reads that saw another store than the transaction.
\<close>

theorem lease_expiry:
  assumes lock: "lockTimeSlot pre0 d0 doctorId slotId holder T ok0 = ((200, Inr l), d1)"
    and keys: "distinct (map slot_id (slots d0))"
    and late: "T + 300000 \<le> nowUtc"
    and conf: "confirmBooking pre d1 userId doctorId' slotId notes nowUtc newId ok = (r, d2)"
  shows "expiresAt l = T + 300000
       \<and> d2 = d1
       \<and> (\<exists>st e. r = (st, Inl e)
             \<and> e \<in> {VALIDATION_ERROR, SLOT_NOT_FOUND, SLOT_ALREADY_BOOKED, OTP_REQUIRED,
                     LOCK_INVALID, SLOT_IN_PAST, SLOT_ALREADY_STARTED, CONFLICT_SLOT_STATE})
       \<and> (pre = d1 \<longrightarrow>
            (\<exists>st e. r = (st, Inl e)
                \<and> e \<in> {VALIDATION_ERROR, SLOT_NOT_FOUND, OTP_REQUIRED, LOCK_INVALID}))
       \<and> (pre = d1 \<and> validateAppointment doctorId' slotId notes \<and> doctorId' = doctorId
            \<and> \<not> otp_required (findFirst (\<lambda>u. user_id u = userId) (users d1)) nowUtc
          \<longrightarrow> r = (409, Inl LOCK_INVALID))"
proof -
  have rows: "slot_status s = LOCKED \<and> \<not> held_by userId nowUtc s \<and> slot_doctorId s = doctorId"
    if "s \<in> set (slots d1)" "slot_id s = slotId" for s
    using lease_rows [OF lock keys that] late by (auto simp: held_by_def)
  have ex: "\<exists>s \<in> set (slots d1). slot_id s = slotId"
  proof -
    have "0 < count_rows (\<lambda>s. slot_id s = slotId \<and> slot_doctorId s = doctorId
                         \<and> (slot_status s = AVAILABLE \<or> lockedBy s = Some holder
                            \<or> date_lt (lockExpires s) T)) (slots d0)"
      using lockTimeSlot_success(2) [OF lock] by simp
    from count_rows_pos [OF this]
    obtain x where x: "x \<in> set (slots d0)" "slot_id x = slotId" by auto
    let ?W = "\<lambda>s. slot_id s = slotId \<and> slot_doctorId s = doctorId
                    \<and> (slot_status s = AVAILABLE \<or> lockedBy s = Some holder
                       \<or> date_lt (lockExpires s) T)"
    let ?y = "if ?W x then lock_data holder T x else x"
    have "?y \<in> set (slots d1)"
      unfolding lockTimeSlot_success(3) [OF lock] using x(1) by simp
    moreover have "slot_id ?y = slotId"
      using x(2) by (simp add: lock_data_def)
    ultimately show ?thesis by blast
  qed
  note general = confirmBooking_without_lock [OF conf]
  have "expiresAt l = T + 300000"
    using lockTimeSlot_success(1) [OF lock] by simp
  moreover have "d2 = d1 \<and> (\<exists>st e. r = (st, Inl e)
             \<and> e \<in> {VALIDATION_ERROR, SLOT_NOT_FOUND, SLOT_ALREADY_BOOKED, OTP_REQUIRED,
                     LOCK_INVALID, SLOT_IN_PAST, SLOT_ALREADY_STARTED, CONFLICT_SLOT_STATE})"
    using general rows by blast
  moreover have "\<exists>st e. r = (st, Inl e)
                \<and> e \<in> {VALIDATION_ERROR, SLOT_NOT_FOUND, OTP_REQUIRED, LOCK_INVALID}" if "pre = d1"
    using confirmBooking_stale_lock(1) [OF conf [unfolded that] rows ex] by blast
  moreover have "r = (409, Inl LOCK_INVALID)"
    if "pre = d1" "validateAppointment doctorId' slotId notes" "doctorId' = doctorId"
      "\<not> otp_required (findFirst (\<lambda>u. user_id u = userId) (users d1)) nowUtc"
    using confirmBooking_stale_lock(2) [OF conf [unfolded that(1)] rows ex] that by blast
  ultimately show ?thesis by blast
qed


text \<open>
  The instance: the lock is taken one minute before the passcode verification, so that at
  its expiry the verification still stands.
\<close>

lemma lock_early:
  "lockTimeSlot clinic clinic ''d1'' ''s1'' ''u1'' (t0 - 60000) True
     = ((200, Inr \<lparr>lease_slotId = ''s1'', lease_doctorId = ''d1'', lease_lockedBy = ''u1'',
                   lease_lockedAt = t0 - 60000, expiresAt = t0 + 240000\<rparr>), early_lock)"
  by code_simp

lemma confirm_early_lock:
  "confirmBooking early_lock early_lock ''u1'' ''d1'' ''s1'' None (t0 + 240000) ''a1'' True
     = ((409, Inl LOCK_INVALID), early_lock)"
  by code_simp

theorem lease_expiry_witness:
  "lockTimeSlot clinic clinic ''d1'' ''s1'' ''u1'' (t0 - 60000) True
     = ((200, Inr \<lparr>lease_slotId = ''s1'', lease_doctorId = ''d1'', lease_lockedBy = ''u1'',
                   lease_lockedAt = t0 - 60000, expiresAt = t0 + 240000\<rparr>), early_lock)
   \<and> distinct (map slot_id (slots clinic))
   \<and> (t0 - 60000) + 300000 \<le> t0 + 240000
   \<and> confirmBooking early_lock early_lock ''u1'' ''d1'' ''s1'' None (t0 + 240000) ''a1'' True
       = ((409, Inl LOCK_INVALID), early_lock)
   \<and> (\<exists>st e. ((409, Inl LOCK_INVALID) :: appointment response) = (st, Inl e)
         \<and> e \<in> {VALIDATION_ERROR, SLOT_NOT_FOUND, OTP_REQUIRED, LOCK_INVALID})"
proof -
  have keys: "distinct (map slot_id (slots clinic))" by code_simp
  have late: "(t0 - 60000) + 300000 \<le> t0 + 240000" by simp
  from lease_expiry [OF lock_early keys late confirm_early_lock]
  have "\<exists>st e. ((409, Inl LOCK_INVALID) :: appointment response) = (st, Inl e)
         \<and> e \<in> {VALIDATION_ERROR, SLOT_NOT_FOUND, OTP_REQUIRED, LOCK_INVALID}"
    by blast
  with lock_early keys late confirm_early_lock show ?thesis
    by blast
qed

text \<open>
  The claim as it is written names two errors only. Here the lock and the passcode
  verification of \<open>u1\<close> were both made at \<open>t0\<close> and both end five minutes later; at that
  moment the handler answers \<open>OTP_REQUIRED\<close>, the check that comes before the lock.
\<close>

theorem lease_expiry_counterexample:
  "lockTimeSlot clinic clinic ''d1'' ''s1'' ''u1'' t0 True
     = ((200, Inr \<lparr>lease_slotId = ''s1'', lease_doctorId = ''d1'', lease_lockedBy = ''u1'',
                   lease_lockedAt = t0, expiresAt = t0 + 300000\<rparr>), locked1)
   \<and> confirmBooking locked1 locked1 ''u1'' ''d1'' ''s1'' None (t0 + 300000) ''a1'' True
       = ((403, Inl OTP_REQUIRED), locked1)"
  by code_simp

section \<open>The passcode gate\<close>

lemma confirmBooking_otp_required:
  assumes "otp_required (findFirst (\<lambda>u. user_id u = userId) (users pre)) nowUtc"
  shows "\<exists>st e. confirmBooking pre d userId doctorId tsId notes nowUtc newId ok = ((st, Inl e), d)
           \<and> e \<in> {VALIDATION_ERROR, SLOT_NOT_FOUND, SLOT_ALREADY_BOOKED, OTP_REQUIRED}"
    and "validateAppointment doctorId tsId notes \<Longrightarrow>
         findFirst (\<lambda>s. slot_id s = tsId) (slots pre) = Some slot \<Longrightarrow>
         slot_doctorId slot = doctorId \<Longrightarrow> slot_status slot \<noteq> BOOKED \<Longrightarrow>
         confirmBooking pre d userId doctorId tsId notes nowUtc newId ok
           = ((403, Inl OTP_REQUIRED), d)"
  using assms unfolding confirmBooking_def
  by (auto split: option.splits)

lemma otp_required_iff:
  "\<not> otp_required usr nowUtc \<longleftrightarrow> (\<exists>u t. usr = Some u \<and> otpVerifiedUntil u = Some t \<and> nowUtc < t)"
  by (auto simp: otp_required_def split: option.splits)

lemma confirmBooking_success:
  assumes "confirmBooking pre d userId doctorId tsId notes nowUtc newId ok = ((201, Inr appt), d')"
  shows "\<not> otp_required (findFirst (\<lambda>u. user_id u = userId) (users pre)) nowUtc"
    and "users d' = map (\<lambda>u. if user_id u = userId then u\<lparr>otpVerifiedUntil := None\<rparr> else u)
                     (users d)"
  using assms unfolding confirmBooking_def
  by (auto simp: Let_def split: if_splits option.splits prod.splits sum.splits
      dest!: transaction_commit confirmBooking_tx_Inr)

lemma otp_cleared:
  "otp_required
     (findFirst (\<lambda>u. user_id u = userId)
        (map (\<lambda>u. if user_id u = userId then u\<lparr>otpVerifiedUntil := None\<rparr> else u) us)) now"
  by (induction us) (auto simp: findFirst_def otp_required_def)

text \<open>
  Claim C7, as the handler has it. When the \<open>otpVerifiedUntil\<close> of the requesting user, as
  the handler reads it, is null or not after the store's clock, \<open>confirmBooking\<close> answers
  an error and changes nothing; the error is \<open>OTP_REQUIRED\<close> whenever the body is well
  formed and the slot exists for the doctor and is not \<open>BOOKED\<close>, and otherwise the error of
  the check that comes first (400, \<open>SLOT_NOT_FOUND\<close>, \<open>SLOT_ALREADY_BOOKED\<close>). A booking
  that succeeds was made while the clock was before \<open>otpVerifiedUntil\<close>, and it sets
  \<open>otpVerifiedUntil\<close> to null; so the next attempt of the same user, for any slot and at any
  time, answers one of these errors and changes nothing until the passcode is verified
  again.
\<close>

theorem otp_gate:
  assumes conf: "confirmBooking pre d userId doctorId tsId notes nowUtc newId ok = (r, d')"
  shows "(otp_required (findFirst (\<lambda>u. user_id u = userId) (users pre)) nowUtc \<longrightarrow>
            d' = d
            \<and> (\<exists>st e. r = (st, Inl e)
                  \<and> e \<in> {VALIDATION_ERROR, SLOT_NOT_FOUND, SLOT_ALREADY_BOOKED, OTP_REQUIRED}))
       \<and> (otp_required (findFirst (\<lambda>u. user_id u = userId) (users pre)) nowUtc
            \<and> validateAppointment doctorId tsId notes
            \<and> (\<exists>slot. findFirst (\<lambda>s. slot_id s = tsId) (slots pre) = Some slot
                   \<and> slot_doctorId slot = doctorId \<and> slot_status slot \<noteq> BOOKED) \<longrightarrow>
            r = (403, Inl OTP_REQUIRED))
       \<and> ((\<exists>appt. r = (201, Inr appt)) \<longrightarrow>
            (\<exists>u t. findFirst (\<lambda>u. user_id u = userId) (users pre) = Some u
                \<and> otpVerifiedUntil u = Some t \<and> nowUtc < t)
            \<and> otp_required (findFirst (\<lambda>u. user_id u = userId) (users d')) now2
            \<and> (\<exists>st e. confirmBooking d' d' userId doctorId2 tsId2 notes2 now2 newId2 ok2
                        = ((st, Inl e), d')
                  \<and> e \<in> {VALIDATION_ERROR, SLOT_NOT_FOUND, SLOT_ALREADY_BOOKED, OTP_REQUIRED}))"
proof (intro conjI impI)
  assume req: "otp_required (findFirst (\<lambda>u. user_id u = userId) (users pre)) nowUtc"
  from confirmBooking_otp_required(1) [OF req, of d doctorId tsId "notes" newId ok] conf
  show "d' = d" and "\<exists>st e. r = (st, Inl e)
                  \<and> e \<in> {VALIDATION_ERROR, SLOT_NOT_FOUND, SLOT_ALREADY_BOOKED, OTP_REQUIRED}"
    by auto
next
  assume "otp_required (findFirst (\<lambda>u. user_id u = userId) (users pre)) nowUtc
            \<and> validateAppointment doctorId tsId notes
            \<and> (\<exists>slot. findFirst (\<lambda>s. slot_id s = tsId) (slots pre) = Some slot
                   \<and> slot_doctorId slot = doctorId \<and> slot_status slot \<noteq> BOOKED)"
  then show "r = (403, Inl OTP_REQUIRED)"
    using confirmBooking_otp_required(2) [of userId pre nowUtc doctorId tsId "notes" _ d newId ok] conf
    by auto
next
  assume "\<exists>appt. r = (201, Inr appt)"
  then obtain appt where ok: "confirmBooking pre d userId doctorId tsId notes nowUtc newId ok
                                = ((201, Inr appt), d')"
    using conf by auto
  from confirmBooking_success(1) [OF ok]
  show "\<exists>u t. findFirst (\<lambda>u. user_id u = userId) (users pre) = Some u
                \<and> otpVerifiedUntil u = Some t \<and> nowUtc < t"
    by (simp add: otp_required_iff)
  show cleared: "otp_required (findFirst (\<lambda>u. user_id u = userId) (users d')) now2" for now2
    unfolding confirmBooking_success(2) [OF ok] by (rule otp_cleared)
  from confirmBooking_otp_required(1) [OF cleared]
  show "\<exists>st e. confirmBooking d' d' userId doctorId2 tsId2 notes2 now2 newId2 ok2
                        = ((st, Inl e), d')
                  \<and> e \<in> {VALIDATION_ERROR, SLOT_NOT_FOUND, SLOT_ALREADY_BOOKED, OTP_REQUIRED}" .
qed


text \<open>
  The instance: \<open>u1\<close> confirms \<open>s1\<close> a minute after \<open>t0\<close> and tries to confirm \<open>s2\<close> one
  second later.
\<close>

theorem otp_gate_witness:
  "confirmBooking locked1 locked1 ''u1'' ''d1'' ''s1'' None (t0 + 60000) ''a1'' True
     = ((201, Inr appt1), booked1)
   \<and> (\<exists>u t. findFirst (\<lambda>u. user_id u = ''u1'') (users locked1) = Some u
          \<and> otpVerifiedUntil u = Some t \<and> t0 + 60000 < t)
   \<and> otp_required (findFirst (\<lambda>u. user_id u = ''u1'') (users booked1)) (t0 + 61000)
   \<and> confirmBooking booked1 booked1 ''u1'' ''d1'' ''s2'' None (t0 + 61000) ''a2'' True
       = ((403, Inl OTP_REQUIRED), booked1)"
proof -
  have next_try: "confirmBooking booked1 booked1 ''u1'' ''d1'' ''s2'' None (t0 + 61000) ''a2'' True
       = ((403, Inl OTP_REQUIRED), booked1)"
    by code_simp
  from otp_gate [OF confirm_locked1, of "t0 + 61000"]
  have "(\<exists>u t. findFirst (\<lambda>u. user_id u = ''u1'') (users locked1) = Some u
          \<and> otpVerifiedUntil u = Some t \<and> t0 + 60000 < t)
      \<and> otp_required (findFirst (\<lambda>u. user_id u = ''u1'') (users booked1)) (t0 + 61000)"
    by blast
  with confirm_locked1 next_try show ?thesis
    by blast
qed

text \<open>
  The claim as it is written has \<open>OTP_REQUIRED\<close> for every attempt without a valid
  verification. The attempt that follows a successful booking at once, for the same slot,
  is answered \<open>SLOT_ALREADY_BOOKED\<close>: the status of the slot is tested before the gate.
\<close>

theorem otp_gate_counterexample:
  "confirmBooking locked1 locked1 ''u1'' ''d1'' ''s1'' None (t0 + 60000) ''a1'' True
     = ((201, Inr appt1), booked1)
   \<and> map otpVerifiedUntil (users booked1) = [None, Some (t0 + 300000)]
   \<and> confirmBooking booked1 booked1 ''u1'' ''d1'' ''s1'' None (t0 + 61000) ''a2'' True
       = ((409, Inl SLOT_ALREADY_BOOKED), booked1)"
  by code_simp

section \<open>Where the handlers break the rules of the store\<close>

text \<open>
  A slot has at most one appointment with status \<open>BOOKED\<close>: the list \<open>booked_on d s\<close> has
  at most one element. Three of the handlers that write appointments keep this, for every
  slot and whatever stores their reads and their transaction meet: \<open>confirmBooking\<close>,
  because its transaction looks for a booked appointment of the slot before it adds one;
  \<open>cancelAppointment\<close>, because it only takes a status \<open>BOOKED\<close> away; and
  \<open>confirmReschedule\<close>, because it takes every other appointment off the new slot,
  the identifier of the new row being one that no row has yet.
\<close>

lemma confirmBooking_tx_first_booking:
  "confirmBooking_tx slot userId doctorId tsId notes nowUtc newId d = Inr (d', appt) \<Longrightarrow>
     filter (\<lambda>a. timeSlotId a = Some tsId \<and> appt_status a = APPT_BOOKED) (appointments d) = []"
  by (auto simp: confirmBooking_tx_def Let_def updateMany_def findFirst_def find_None_iff
        filter_empty_conv split: if_splits sum.splits)

lemma confirmBooking_keeps_one_booking:
  assumes conf: "confirmBooking pre d userId doctorId tsId notes nowUtc newId redis_ok = (r, d')"
    and inv: "length (booked_on d s) \<le> 1"
  shows "length (booked_on d' s) \<le> 1"
proof (cases "\<exists>appt. r = (201, Inr appt)")
  case True
  then obtain appt where
    tx: "\<exists>slot. confirmBooking_tx slot userId doctorId tsId notes nowUtc newId d = Inr (d', appt)"
    using conf unfolding confirmBooking_def
    by (auto simp: Let_def split: if_splits option.splits prod.splits sum.splits
        dest!: transaction_commit)
  then have "appointments d' = appointments d @ [appt]" "timeSlotId appt = Some tsId"
    "booked_on d tsId = []"
    by (auto simp: booked_on_def dest: confirmBooking_tx_Inr confirmBooking_tx_first_booking)
  with inv show ?thesis
    by (cases "s = tsId") (auto simp: booked_on_def)
next
  case False
  then have "d' = d"
    using conf unfolding confirmBooking_def
    by (auto simp: Let_def split: if_splits option.splits prod.splits sum.splits
        dest!: transaction_rollback)
  with inv show ?thesis by simp
qed

lemma filter_map_status_le:
  "length (filter (\<lambda>a. timeSlotId a = Some s \<and> appt_status a = APPT_BOOKED)
             (map (\<lambda>a. if P a then a\<lparr>appt_status := st\<rparr> else a) as))
     \<le> length (filter (\<lambda>a. timeSlotId a = Some s \<and> appt_status a = APPT_BOOKED) as)"
  if "st \<noteq> APPT_BOOKED"
  using that by (induction as) auto

lemma cancelAppointment_keeps_one_booking:
  assumes c: "cancelAppointment pre d userId ident nowUtc redis_ok = (r, d')"
    and inv: "length (booked_on d s) \<le> 1"
  shows "length (booked_on d' s) \<le> 1"
proof -
  have "appointments d' = appointments d
        \<or> (\<exists>P. appointments d' = map (\<lambda>a. if P a then a\<lparr>appt_status := CANCELLED\<rparr> else a)
                                     (appointments d))"
    using c unfolding cancelAppointment_def
    by (auto simp: Let_def transaction_def cancelAppointment_tx_def update_row_def
        split: if_splits option.splits prod.splits sum.splits)
  then show ?thesis
  proof
    assume "appointments d' = appointments d"
    with inv show ?thesis by (simp add: booked_on_def)
  next
    assume "\<exists>P. appointments d' = map (\<lambda>a. if P a then a\<lparr>appt_status := CANCELLED\<rparr> else a)
                                     (appointments d)"
    then obtain P where
      eq: "appointments d' = map (\<lambda>a. if P a then a\<lparr>appt_status := CANCELLED\<rparr> else a)
                               (appointments d)" ..
    have "length (booked_on d' s) \<le> length (booked_on d s)"
      unfolding booked_on_def eq by (rule filter_map_status_le) simp
    with inv show ?thesis by simp
  qed
qed


lemma confirmReschedule_tx_Inr:
  "confirmReschedule_tx appt userId newSlotId oldSlotId doctorId nowUtc newId d = Inr (d', created)
   \<Longrightarrow>
     created = \<lparr>appt_id = newId, appt_userId = appt_userId appt, appt_doctorId = appt_doctorId appt,
                 timeSlotId = Some newSlotId, appt_status = APPT_BOOKED,
                 appt_notes = appt_notes appt\<rparr>
     \<and> appointments d'
         = map (\<lambda>a. if timeSlotId a = Some newSlotId \<and> appt_id a \<noteq> newId
                     then a\<lparr>timeSlotId := None\<rparr> else a)
             (map (\<lambda>a. if appt_id a = appt_id appt then a\<lparr>appt_status := RESCHEDULED\<rparr> else a)
                (appointments d) @ [created])
     \<and> slots d'
         = map (\<lambda>s. if slot_id s = oldSlotId then free_data s else s)
             (map (\<lambda>s. if slot_id s = newSlotId \<and> held_by userId nowUtc s then book_data s else s)
                (slots d))
     \<and> users d' = users d"
  by (auto simp: confirmReschedule_tx_def Let_def updateMany_def update_row_def
           split: if_splits sum.splits option.splits)

lemma detach_retire_other:
  "s \<noteq> n \<Longrightarrow>
   length (filter (\<lambda>a. timeSlotId a = Some s \<and> appt_status a = APPT_BOOKED)
             (map (\<lambda>a. if timeSlotId a = Some n \<and> Q a then a\<lparr>timeSlotId := None\<rparr> else a)
                (map (\<lambda>a. if P a then a\<lparr>appt_status := RESCHEDULED\<rparr> else a) as)))
     \<le> length (filter (\<lambda>a. timeSlotId a = Some s \<and> appt_status a = APPT_BOOKED) as)"
  by (induction as) auto

lemma detach_new:
  "newId \<notin> appt_id ` set as \<Longrightarrow>
   filter (\<lambda>a. timeSlotId a = Some n \<and> appt_status a = APPT_BOOKED)
     (map (\<lambda>a. if timeSlotId a = Some n \<and> appt_id a \<noteq> newId then a\<lparr>timeSlotId := None\<rparr> else a)
        (map (\<lambda>a. if P a then a\<lparr>appt_status := RESCHEDULED\<rparr> else a) as)) = []"
  by (induction as) auto

lemma confirmReschedule_keeps_one_booking:
  assumes c: "confirmReschedule pre d userId appointmentId newSlotId oldSlotId doctorId nowUtc
                newId redis_ok = (r, d')"
    and fresh: "newId \<notin> appt_id ` set (appointments d)"
    and inv: "length (booked_on d s) \<le> 1"
  shows "length (booked_on d' s) \<le> 1"
proof -
  have "d' = d \<or> (\<exists>appt created.
          confirmReschedule_tx appt userId newSlotId oldSlotId doctorId nowUtc newId d
            = Inr (d', created))"
    using c unfolding confirmReschedule_def
    by (auto simp: Let_def split: if_splits option.splits prod.splits sum.splits
        dest!: transaction_rollback transaction_commit)
  then show ?thesis
  proof
    assume "d' = d"
    with inv show ?thesis by simp
  next
    assume "\<exists>appt created.
          confirmReschedule_tx appt userId newSlotId oldSlotId doctorId nowUtc newId d
            = Inr (d', created)"
    then obtain appt created where
      "confirmReschedule_tx appt userId newSlotId oldSlotId doctorId nowUtc newId d
         = Inr (d', created)" by blast
    from confirmReschedule_tx_Inr [OF this]
    have created: "timeSlotId created = Some newSlotId" "appt_id created = newId"
      and as: "appointments d'
         = map (\<lambda>a. if timeSlotId a = Some newSlotId \<and> appt_id a \<noteq> newId
                     then a\<lparr>timeSlotId := None\<rparr> else a)
             (map (\<lambda>a. if appt_id a = appt_id appt then a\<lparr>appt_status := RESCHEDULED\<rparr> else a)
                (appointments d) @ [created])"
      by auto
    let ?F = "\<lambda>a. timeSlotId a = Some s \<and> appt_status a = APPT_BOOKED"
    let ?D = "\<lambda>a. if timeSlotId a = Some newSlotId \<and> appt_id a \<noteq> newId
                  then a\<lparr>timeSlotId := None\<rparr> else a"
    let ?R = "\<lambda>a. if appt_id a = appt_id appt then a\<lparr>appt_status := RESCHEDULED\<rparr> else a"
    have split: "booked_on d' s
                   = filter ?F (map ?D (map ?R (appointments d))) @ filter ?F (map ?D [created])"
      unfolding booked_on_def as map_append filter_append ..
    show ?thesis
    proof (cases "s = newSlotId")
      case True
      have "filter ?F (map ?D (map ?R (appointments d))) = []"
        unfolding True by (rule detach_new [OF fresh])
      then have "booked_on d' s = filter ?F (map ?D [created])"
        using split by simp
      then show ?thesis by simp
    next
      case False
      have "length (filter ?F (map ?D (map ?R (appointments d)))) \<le> length (booked_on d s)"
        unfolding booked_on_def by (rule detach_retire_other [OF False])
      moreover have "filter ?F (map ?D [created]) = []"
        using created False by simp
      ultimately have "length (booked_on d' s) \<le> length (booked_on d s)"
        using split by simp
      with inv show ?thesis by simp
    qed
  qed
qed

text \<open>
  Claim C2 does not hold of \<open>updateAppointmentStatus\<close>. The handler accepts \<open>BOOKED\<close> as
  the new status and does not look at the old one or at the slot. In the store
  \<open>second_booking\<close> slot \<open>s1\<close> has the cancelled appointment \<open>a1\<close> of user \<open>u1\<close> and the
  booked appointment \<open>a2\<close> of user \<open>u2\<close>; when \<open>u1\<close> sets \<open>a1\<close> to \<open>BOOKED\<close> the answer is
  200 and the slot has two appointments with status \<open>BOOKED\<close>.
\<close>

theorem updateAppointmentStatus_double_booking:
  "summary second_booking
     = [(''a1'', CANCELLED, Some ''s1''), (''a2'', APPT_BOOKED, Some ''s1'')]
   \<and> map appt_id (booked_on second_booking ''s1'') = [''a2'']
   \<and> fst (updateAppointmentStatus second_booking second_booking ''u1'' ''a1'' APPT_BOOKED True)
       = (200, Inr \<lparr>reply_changed = True, reply_id = ''a1'', reply_status = APPT_BOOKED\<rparr>)
   \<and> map appt_id
        (booked_on
           (snd (updateAppointmentStatus second_booking second_booking ''u1'' ''a1'' APPT_BOOKED True))
           ''s1'')
       = [''a1'', ''a2'']"
  by code_simp

text \<open>
  In \<open>lockTimeSlot\<close>, \<open>confirmBooking\<close> and \<open>cancelAppointment\<close> the cache calls are inside
  a \<open>try\<close> whose \<open>catch\<close> only logs: the answer and the store are the same whether the
  cache works or throws. In \<open>confirmReschedule\<close> a swap that would be answered with 200 is
  answered with 500 when the cache throws, with the swap in the store.
\<close>

lemma confirmBooking_ignores_cache:
  "confirmBooking pre d userId doctorId tsId notes nowUtc newId redis_ok
     = confirmBooking pre d userId doctorId tsId notes nowUtc newId True"
  unfolding confirmBooking_def Let_def by (rule refl)

lemma cancelAppointment_ignores_cache:
  "cancelAppointment pre d userId ident nowUtc redis_ok
     = cancelAppointment pre d userId ident nowUtc True"
  unfolding cancelAppointment_def Let_def by (rule refl)

lemma lockTimeSlot_ignores_cache:
  "lockTimeSlot pre d doctorId slotId userId nowUtc redis_ok
     = lockTimeSlot pre d doctorId slotId userId nowUtc True"
  unfolding lockTimeSlot_def Let_def by (rule refl)

lemma confirmReschedule_cache:
  assumes "confirmReschedule pre d userId appointmentId newSlotId oldSlotId doctorId nowUtc newId True
             = ((200, Inr a), d')"
  shows "confirmReschedule pre d userId appointmentId newSlotId oldSlotId doctorId nowUtc newId False
             = ((500, Inl INTERNAL_SERVER_ERROR), d')"
  using assms unfolding confirmReschedule_def
  by (auto simp: invalidate_def split: if_splits option.splits prod.splits sum.splits)

text \<open>
  Claim C8 does not hold of \<open>confirmReschedule\<close>. Its cache calls are not inside a
  \<open>try\<close> of their own, so when the cache throws after the transaction has committed, the
  handler answers 500 although the swap is in the store: the same store as when the cache
  works and the answer is 200 with the new appointment.
\<close>

theorem confirmReschedule_cache_failure:
  "confirmReschedule relocked1 relocked1 ''u1'' ''a1'' ''s2'' ''s1'' ''d1'' (t0 + 180000) ''a2'' True
     = ((200, Inr appt2), swapped)
   \<and> confirmReschedule relocked1 relocked1 ''u1'' ''a1'' ''s2'' ''s1'' ''d1'' (t0 + 180000) ''a2'' False
       = ((500, Inl INTERNAL_SERVER_ERROR), swapped)
   \<and> summary relocked1 = [(''a1'', APPT_BOOKED, Some ''s1'')]
   \<and> summary swapped = [(''a1'', RESCHEDULED, Some ''s1''), (''a2'', APPT_BOOKED, Some ''s2'')]
   \<and> map slot_status (slots swapped) = [AVAILABLE, BOOKED, AVAILABLE, AVAILABLE]"
  by code_simp

text \<open>
  The other handlers that take an appointment refuse one whose status is not \<open>BOOKED\<close>,
  a \<open>RESCHEDULED\<close> one among them.
\<close>

lemma cancelAppointment_only_booked:
  assumes "findFirst (\<lambda>a. appt_id a = ident \<and> appt_userId a = userId) (appointments pre) = Some appt"
    and "appt_status appt \<noteq> APPT_BOOKED"
  shows "cancelAppointment pre d userId ident nowUtc redis_ok
           = ((409, Inl ONLY_BOOKED_CAN_BE_CANCELLED), d)"
  using assms by (simp add: cancelAppointment_def)

lemma rescheduleAppointment_only_booked:
  assumes "newTimeSlotId \<noteq> []"
    and "findFirst (\<lambda>a. appt_id a = ident \<and> appt_userId a = userId) (appointments pre) = Some appt"
    and "appt_status appt \<noteq> APPT_BOOKED"
  shows "rescheduleAppointment pre d userId ident newTimeSlotId nowUtc
           = ((409, Inl ONLY_BOOKED_CAN_BE_RESCHEDULED), d)"
  using assms by (simp add: rescheduleAppointment_def)

lemma confirmReschedule_only_booked:
  assumes "appointmentId \<noteq> []" "newSlotId \<noteq> []" "oldSlotId \<noteq> []" "doctorId \<noteq> []"
    and "findFirst (\<lambda>a. appt_id a = appointmentId \<and> appt_userId a = userId) (appointments pre)
           = Some appt"
    and "appt_status appt \<noteq> APPT_BOOKED"
  shows "confirmReschedule pre d userId appointmentId newSlotId oldSlotId doctorId nowUtc newId
           redis_ok = ((409, Inl ONLY_BOOKED_CAN_BE_RESCHEDULED), d)"
  using assms by (simp add: confirmReschedule_def)

text \<open>
  Claim C9 does not hold either. In the store \<open>swapped\<close> appointment \<open>a1\<close> is
  \<open>RESCHEDULED\<close> and points at its old slot \<open>s1\<close>. \<open>updateAppointmentStatus\<close> sets it to
  \<open>CANCELLED\<close>, since it does not look at the old status. And when appointment \<open>a2\<close> is
  moved onto \<open>s1\<close>, the last step of the swap sets to null the slot of every other
  appointment that points at \<open>s1\<close>, whatever its status: \<open>a1\<close> loses its slot.
\<close>

theorem rescheduled_appointment_changes:
  "summary swapped = [(''a1'', RESCHEDULED, Some ''s1''), (''a2'', APPT_BOOKED, Some ''s2'')]
   \<and> fst (updateAppointmentStatus swapped swapped ''u1'' ''a1'' CANCELLED True)
       = (200, Inr \<lparr>reply_changed = True, reply_id = ''a1'', reply_status = CANCELLED\<rparr>)
   \<and> summary (snd (updateAppointmentStatus swapped swapped ''u1'' ''a1'' CANCELLED True))
       = [(''a1'', CANCELLED, Some ''s1''), (''a2'', APPT_BOOKED, Some ''s2'')]
   \<and> summary swapped_back
       = [(''a1'', RESCHEDULED, None), (''a2'', RESCHEDULED, Some ''s2''),
          (''a3'', APPT_BOOKED, Some ''s1'')]"
  by code_simp

end
